theory Spec2Isabelle
  imports Complex_Main
begin

section \<open>Mesh store\<close>

text \<open>
  Indices (\<open>index_t\<close>) are \<open>int\<close>, since the code uses the negative sentinels \<open>-1\<close>
  and \<open>-2\<close>. A \<open>std::set<index_t>\<close> is a strictly increasing list; iteration is in list
  order. A \<open>std::vector\<close> is a list, read with \<open>!\<close> at \<open>nat i\<close>; the source reads and
  writes out of range only on an ill-formed mesh (undefined behaviour in C++), so
  statements that depend on an index carry the range as a hypothesis.
\<close>

subsection \<open>Doubles\<close>

text \<open>
  Coordinates, metric components, areas and metric lengths (\<open>real_t\<close>, \<open>double\<close>) are
  values of the type \<open>double\<close>: a number, the negative zero, the two infinities or
  NaN; \<open>Num 0\<close> is the positive zero. The operations follow IEEE 754 on the special
  values: a quotient by zero is an infinity or NaN, the square root of a negative
  number is NaN, NaN propagates and every comparison with NaN is false. On numbers
  the operations are the exact ones: rounding and overflow are not modelled. The values returned by
  \<open>Mesh::calc_edge_length\<close> and \<open>ElementProperty::lipnikov\<close>, which the operators only compare and store, are taken to be numbers and have type \<open>real\<close>.
\<close>

datatype double = Num real | MinusZero | PlusInf | MinusInf | NaN

fun sign_bit :: "double \<Rightarrow> bool" where
  "sign_bit (Num x) = (x < 0)"
| "sign_bit MinusZero = True"
| "sign_bit PlusInf = False"
| "sign_bit MinusInf = True"
| "sign_bit NaN = False"

fun is_zero :: "double \<Rightarrow> bool" where
  "is_zero (Num x) = (x = 0)"
| "is_zero MinusZero = True"
| "is_zero PlusInf = False"
| "is_zero MinusInf = False"
| "is_zero NaN = False"

fun is_inf :: "double \<Rightarrow> bool" where
  "is_inf (Num x) = False"
| "is_inf MinusZero = False"
| "is_inf PlusInf = True"
| "is_inf MinusInf = True"
| "is_inf NaN = False"

fun is_finite :: "double \<Rightarrow> bool" where
  "is_finite (Num x) = True"
| "is_finite MinusZero = True"
| "is_finite PlusInf = False"
| "is_finite MinusInf = False"
| "is_finite NaN = False"

text \<open>The number a finite double stands for (\<open>0\<close> for the other values).\<close>

fun real_of :: "double \<Rightarrow> real" where
  "real_of (Num x) = x"
| "real_of MinusZero = 0"
| "real_of PlusInf = 0"
| "real_of MinusInf = 0"
| "real_of NaN = 0"

definition signed_zero :: "bool \<Rightarrow> double" where
  "signed_zero neg = (if neg then MinusZero else Num 0)"

definition signed_inf :: "bool \<Rightarrow> double" where
  "signed_inf neg = (if neg then MinusInf else PlusInf)"

definition ddiv :: "double \<Rightarrow> double \<Rightarrow> double" where
  "ddiv a b =
     (if a = NaN \<or> b = NaN then NaN
      else if (is_zero a \<and> is_zero b) \<or> (is_inf a \<and> is_inf b) then NaN
      else if is_inf a \<or> is_zero b then signed_inf (sign_bit a \<noteq> sign_bit b)
      else if is_zero a \<or> is_inf b then signed_zero (sign_bit a \<noteq> sign_bit b)
      else Num (real_of a / real_of b))"

definition dmul :: "double \<Rightarrow> double \<Rightarrow> double" where
  "dmul a b =
     (if a = NaN \<or> b = NaN then NaN
      else if (is_zero a \<and> is_inf b) \<or> (is_inf a \<and> is_zero b) then NaN
      else if is_inf a \<or> is_inf b then signed_inf (sign_bit a \<noteq> sign_bit b)
      else if is_zero a \<or> is_zero b then signed_zero (sign_bit a \<noteq> sign_bit b)
      else Num (real_of a * real_of b))"

definition dadd :: "double \<Rightarrow> double \<Rightarrow> double" where
  "dadd a b =
     (if a = NaN \<or> b = NaN then NaN
      else if is_inf a then (if is_inf b \<and> sign_bit a \<noteq> sign_bit b then NaN else a)
      else if is_inf b then b
      else if is_zero a \<and> is_zero b then signed_zero (sign_bit a \<and> sign_bit b)
      else Num (real_of a + real_of b))"

fun dneg :: "double \<Rightarrow> double" where
  "dneg (Num x) = (if x = 0 then MinusZero else Num (- x))"
| "dneg MinusZero = Num 0"
| "dneg PlusInf = MinusInf"
| "dneg MinusInf = PlusInf"
| "dneg NaN = NaN"

definition dsub :: "double \<Rightarrow> double \<Rightarrow> double" where
  "dsub a b = dadd a (dneg b)"

fun dsqrt :: "double \<Rightarrow> double" where
  "dsqrt (Num x) = (if x < 0 then NaN else Num (sqrt x))"
| "dsqrt MinusZero = MinusZero"
| "dsqrt PlusInf = PlusInf"
| "dsqrt MinusInf = NaN"
| "dsqrt NaN = NaN"

text \<open>The comparison \<open>a <= b\<close> of two doubles.\<close>

definition dle :: "double \<Rightarrow> double \<Rightarrow> bool" where
  "dle a b \<longleftrightarrow>
     a \<noteq> NaN \<and> b \<noteq> NaN
     \<and> (a = MinusInf \<or> b = PlusInf \<or> (is_finite a \<and> is_finite b \<and> real_of a \<le> real_of b))"

subsection \<open>The mesh\<close>

fun set_insert :: "int \<Rightarrow> int list \<Rightarrow> int list" where
  "set_insert x [] = [x]"
| "set_insert x (y # ys) =
     (if x < y then x # y # ys else if x = y then y # ys else y # set_insert x ys)"

definition set_erase :: "int \<Rightarrow> int list \<Rightarrow> int list" where
  "set_erase x xs = filter (\<lambda>y. y \<noteq> x) xs"

definition set_intersection :: "int list \<Rightarrow> int list \<Rightarrow> int list" where
  "set_intersection xs ys = filter (\<lambda>x. x \<in> set ys) xs"

record mesh =
  NNodes :: nat
  NElements :: nat
  NNList :: "int list list"
  NEList :: "int list list"
  ENList :: "int list"
  coords :: "double list"
  metric :: "double list"
  lnn2gnn :: "int list"
  node_owner :: "int list"
  recv_halo :: "int list"

text \<open>
  \<open>get_element\<close> and \<open>get_coords\<close> return pointers into the flat arrays \<open>_ENList\<close>
  (stride \<open>nloc\<close>) and \<open>_coords\<close> (stride \<open>ndims\<close>); the operators index these arrays
  directly with the same strides.
\<close>

definition get_element :: "nat \<Rightarrow> mesh \<Rightarrow> int \<Rightarrow> int list" where
  "get_element nloc m eid = take nloc (drop (nloc * nat eid) (ENList m))"

definition get_coords :: "nat \<Rightarrow> mesh \<Rightarrow> int \<Rightarrow> double list" where
  "get_coords ndims m nid = take ndims (drop (ndims * nat nid) (coords m))"

definition get_metric :: "nat \<Rightarrow> mesh \<Rightarrow> int \<Rightarrow> double list" where
  "get_metric msize m nid = take msize (drop (msize * nat nid) (metric m))"

text \<open>
  Modelled from the spec: \<open>Mesh::erase_element\<close>, \<open>Mesh::erase_vertex\<close> and
  \<open>Mesh::get_node_patch\<close> (Mesh.h is not among the sources). Erasing an element
  removes it from the node-element lists of its vertices and sets its first index to
  the sentinel \<open>-1\<close>; erasing a vertex clears its two adjacency lists; the node patch
  of a vertex is the set of its neighbours.
\<close>

definition erase_element :: "nat \<Rightarrow> mesh \<Rightarrow> int \<Rightarrow> mesh" where
  "erase_element nloc m eid =
     m\<lparr>NEList := fold (\<lambda>v ne. ne[nat v := set_erase eid (ne ! nat v)])
                      (get_element nloc m eid) (NEList m),
       ENList := (ENList m)[nloc * nat eid := -1]\<rparr>"

definition erase_vertex :: "mesh \<Rightarrow> int \<Rightarrow> mesh" where
  "erase_vertex m nid =
     m\<lparr>NNList := (NNList m)[nat nid := []], NEList := (NEList m)[nat nid := []]\<rparr>"

definition get_node_patch :: "mesh \<Rightarrow> int \<Rightarrow> int list" where
  "get_node_patch m nid = fold set_insert (NNList m ! nat nid) []"

section \<open>Coarsen2D\<close>

text \<open>
  The collaborators of the operators whose code is not among the sources are
  parameters: ownership, halo membership and edge length of \<open>Mesh\<close>; the area, the
  metric length and the Lipnikov quality of \<open>ElementProperty\<close> (\<open>lipnikov c m [a, b, \<dots>]\<close>
  stands for \<open>property->lipnikov\<close> applied to \<open>get_coords\<close> and \<open>get_metric\<close> of the
  vertices \<open>a\<close>, \<open>b\<close>, \dots, in that order); and the four operations of \<open>Surface2D\<close> over an abstract surface state.
  One more parameter stands for memory the language leaves undefined:
  \<open>past_the_end i row\<close> is the value found one position past the end of the row
  \<open>row\<close> of vertex \<open>i\<close>, which the 2D swap reads in one place.
\<close>

record 'surf collab =
  is_owned_node :: "mesh \<Rightarrow> int \<Rightarrow> bool"
  is_halo_node :: "mesh \<Rightarrow> int \<Rightarrow> bool"
  calc_edge_length :: "mesh \<Rightarrow> int \<Rightarrow> int \<Rightarrow> real"
  area :: "double list \<Rightarrow> double list \<Rightarrow> double list \<Rightarrow> double"
  property_length :: "double list \<Rightarrow> double list \<Rightarrow> double list \<Rightarrow> double"
  lipnikov :: "mesh \<Rightarrow> int list \<Rightarrow> real"
  past_the_end :: "nat \<Rightarrow> int list \<Rightarrow> int"
  is_corner_vertex :: "'surf \<Rightarrow> int \<Rightarrow> bool"
  is_collapsible :: "'surf \<Rightarrow> int \<Rightarrow> int \<Rightarrow> bool"
  contains_node :: "'surf \<Rightarrow> int \<Rightarrow> bool"
  surface_collapse :: "'surf \<Rightarrow> int \<Rightarrow> int \<Rightarrow> 'surf"

record 'surf coarsen2d =
  mesh :: mesh
  surface :: 'surf
  dynamic_vertex :: "int list"
  stored_L_low :: real
  stored_L_max :: real

text \<open>
  \<open>std::multimap::insert\<close> puts a new pair after every pair whose key is not greater,
  so pairs of equal length stay in insertion order.
\<close>

fun multimap_insert :: "real \<times> int \<Rightarrow> (real \<times> int) list \<Rightarrow> (real \<times> int) list" where
  "multimap_insert p [] = [p]"
| "multimap_insert p (q # qs) =
     (if fst p < fst q then p # q # qs else q # multimap_insert p qs)"

text \<open>The first loop of \<open>coarsen_identify_kernel\<close>: the candidate edges by length.\<close>

fun collect_short_edges ::
  "'surf collab \<Rightarrow> mesh \<Rightarrow> 'surf \<Rightarrow> int \<Rightarrow> real \<Rightarrow> int list \<Rightarrow> (real \<times> int) list
     \<Rightarrow> (real \<times> int) list" where
  "collect_short_edges c m sf rm_vertex L_low [] short_edges = short_edges"
| "collect_short_edges c m sf rm_vertex L_low (nn # nns) short_edges =
     (if nn \<in> set (recv_halo m) then collect_short_edges c m sf rm_vertex L_low nns short_edges
      else if \<not> is_collapsible c sf rm_vertex nn
        then collect_short_edges c m sf rm_vertex L_low nns short_edges
      else if calc_edge_length c m rm_vertex nn < L_low
        then collect_short_edges c m sf rm_vertex L_low nns
               (multimap_insert (calc_edge_length c m rm_vertex nn, nn) short_edges)
      else collect_short_edges c m sf rm_vertex L_low nns short_edges)"

text \<open>
  The area loop over \<open>NEList[rm_vertex]\<close>: \<open>True\<close> when some surviving element, with
  \<open>rm_vertex\<close> renamed to the target, has an area ratio of at most \<open>1.0e-3\<close>.
\<close>

fun area_rejects ::
  "'surf collab \<Rightarrow> mesh \<Rightarrow> int \<Rightarrow> int \<Rightarrow> int list \<Rightarrow> int list \<Rightarrow> bool" where
  "area_rejects c m rm_vertex target_vertex collapsed_elements [] = False"
| "area_rejects c m rm_vertex target_vertex collapsed_elements (ee # ees) =
     (if ee \<in> set collapsed_elements
        then area_rejects c m rm_vertex target_vertex collapsed_elements ees
      else
        (let orig_n = get_element 3 m ee;
             n = map (\<lambda>nid. if nid = rm_vertex then target_vertex else nid) orig_n;
             orig_area = area c (get_coords 2 m (orig_n ! 0)) (get_coords 2 m (orig_n ! 1))
                           (get_coords 2 m (orig_n ! 2));
             new_area = area c (get_coords 2 m (n ! 0)) (get_coords 2 m (n ! 1))
                          (get_coords 2 m (n ! 2))
         in if dle (ddiv new_area orig_area) (Num (1 / 1000)) then True
            else area_rejects c m rm_vertex target_vertex collapsed_elements ees))"

text \<open>The loop over \<open>NNList[rm_vertex]\<close> that looks for a new edge longer than \<open>L_max\<close>.\<close>

fun length_rejects :: "'surf collab \<Rightarrow> mesh \<Rightarrow> int \<Rightarrow> real \<Rightarrow> int list \<Rightarrow> bool" where
  "length_rejects c m target_vertex L_max [] = False"
| "length_rejects c m target_vertex L_max (nn # nns) =
     (if target_vertex = nn then length_rejects c m target_vertex L_max nns
      else if calc_edge_length c m target_vertex nn > L_max then True
      else length_rejects c m target_vertex L_max nns)"

definition reject_collapse_of :: "'surf collab \<Rightarrow> mesh \<Rightarrow> int \<Rightarrow> real \<Rightarrow> int \<Rightarrow> bool" where
  "reject_collapse_of c m rm_vertex L_max target_vertex =
     (let collapsed_elements =
            set_intersection (NEList m ! nat rm_vertex) (NEList m ! nat target_vertex);
          r1 = area_rejects c m rm_vertex target_vertex collapsed_elements
                 (NEList m ! nat rm_vertex);
          r2 = length_rejects c m target_vertex L_max (NNList m ! nat rm_vertex)
      in r1 \<or> r2)"

text \<open>
  The \<open>while(short_edges.size())\<close> loop; the pair is \<open>(reject_collapse, target_vertex)\<close>.
\<close>

fun try_short_edges ::
  "'surf collab \<Rightarrow> mesh \<Rightarrow> int \<Rightarrow> real \<Rightarrow> (real \<times> int) list \<Rightarrow> bool \<times> int \<Rightarrow> bool \<times> int" where
  "try_short_edges c m rm_vertex L_max [] st = st"
| "try_short_edges c m rm_vertex L_max (e # short_edges) st =
     (if \<not> reject_collapse_of c m rm_vertex L_max (snd e) then (False, snd e)
      else try_short_edges c m rm_vertex L_max short_edges (True, snd e))"

text \<open>
  \<open>coarsen_identify_kernel\<close> is a \<open>const\<close> method; the model returns the object next
  to the result so that its effect on the object can be stated.
\<close>

definition coarsen_identify_kernel ::
  "'surf collab \<Rightarrow> 'surf coarsen2d \<Rightarrow> int \<Rightarrow> real \<Rightarrow> real \<Rightarrow> int \<times> 'surf coarsen2d" where
  "coarsen_identify_kernel c s rm_vertex L_low L_max =
     (if NNList (mesh s) ! nat rm_vertex = [] then (-1, s)
      else if is_corner_vertex c (surface s) rm_vertex then (-1, s)
      else if \<not> is_owned_node c (mesh s) rm_vertex then (-1, s)
      else
        (let short_edges = collect_short_edges c (mesh s) (surface s) rm_vertex L_low
                             (NNList (mesh s) ! nat rm_vertex) []
         in case try_short_edges c (mesh s) rm_vertex L_max short_edges (False, -1) of
              (reject_collapse, target_vertex) \<Rightarrow>
                if reject_collapse then (-2, s) else (target_vertex, s)))"

text \<open>
  The two initialisation loops of \<open>coarsen\<close>: mark every vertex \<open>-1\<close> (inactive) or
  \<open>-2\<close> (to be evaluated), then evaluate the marked ones.
\<close>

definition init_dynamic_vertex :: "'surf coarsen2d \<Rightarrow> 'surf coarsen2d" where
  "init_dynamic_vertex s =
     s\<lparr>dynamic_vertex :=
         map (\<lambda>i. if NNList (mesh s) ! i = [] then -1 else -2) [0..<NNodes (mesh s)]\<rparr>"

definition identify_vertex ::
  "'surf collab \<Rightarrow> real \<Rightarrow> real \<Rightarrow> nat \<Rightarrow> 'surf coarsen2d \<Rightarrow> 'surf coarsen2d" where
  "identify_vertex c L_low L_max i s =
     (if dynamic_vertex s ! i = -2
      then (case coarsen_identify_kernel c s (int i) L_low L_max of
              (r, s') \<Rightarrow> s'\<lparr>dynamic_vertex := (dynamic_vertex s')[i := r]\<rparr>)
      else s)"

definition coarsen_identify ::
  "'surf collab \<Rightarrow> 'surf coarsen2d \<Rightarrow> real \<Rightarrow> real \<Rightarrow> 'surf coarsen2d" where
  "coarsen_identify c s L_low L_max =
     fold (identify_vertex c L_low L_max) [0..<NNodes (mesh s)]
       (init_dynamic_vertex (s\<lparr>stored_L_low := L_low, stored_L_max := L_max\<rparr>))"

text \<open>
  An inner loop of \<open>coarsen_kernel\<close>, with \<open>break\<close>, that renames the first entry of
  element \<open>ee\<close> equal to \<open>rm_vertex\<close>:
\<close>

fun renumber_loop :: "mesh \<Rightarrow> int \<Rightarrow> int \<Rightarrow> int \<Rightarrow> nat list \<Rightarrow> mesh" where
  "renumber_loop m rm_vertex target_vertex ee [] = m"
| "renumber_loop m rm_vertex target_vertex ee (i # is) =
     (if ENList m ! (3 * nat ee + i) = rm_vertex
      then m\<lparr>ENList := (ENList m)[3 * nat ee + i := target_vertex]\<rparr>
      else renumber_loop m rm_vertex target_vertex ee is)"

definition renumber_element :: "int \<Rightarrow> int \<Rightarrow> int \<Rightarrow> mesh \<Rightarrow> mesh" where
  "renumber_element rm_vertex target_vertex ee m =
     (let m1 = renumber_loop m rm_vertex target_vertex ee [0, 1, 2]
      in m1\<lparr>NEList := (NEList m1)[nat target_vertex :=
                set_insert ee (NEList m1 ! nat target_vertex)]\<rparr>)"

fun replace_first :: "int \<Rightarrow> int \<Rightarrow> int list \<Rightarrow> int list" where
  "replace_first a b [] = []"
| "replace_first a b (x # xs) = (if x = a then b # xs else x # replace_first a b xs)"

text \<open>
  The loop over \<open>NNList[rm_vertex]\<close> that redirects or drops the back references;
  \<open>None\<close> is the failed \<open>assert(back_reference != end)\<close>.
\<close>

fun update_back_references ::
  "int \<Rightarrow> int \<Rightarrow> int list \<Rightarrow> mesh \<times> int list \<Rightarrow> (mesh \<times> int list) option" where
  "update_back_references rm_vertex target_vertex [] st = Some st"
| "update_back_references rm_vertex target_vertex (nn # nns) (m, new_patch) =
     (if nn = target_vertex
        then update_back_references rm_vertex target_vertex nns (m, new_patch)
      else if rm_vertex \<notin> set (NNList m ! nat nn) then None
      else update_back_references rm_vertex target_vertex nns
             (m\<lparr>NNList := (NNList m)[nat nn :=
                   (if nn \<in> set new_patch then remove1 rm_vertex (NNList m ! nat nn)
                    else replace_first rm_vertex target_vertex (NNList m ! nat nn))]\<rparr>,
              set_insert nn new_patch))"

text \<open>
  One re-evaluation \<open>dynamic_vertex[v] = coarsen_identify_kernel(v, _L_low, _L_max)\<close>,
  guarded by ownership as in the source.
\<close>

definition reevaluate :: "'surf collab \<Rightarrow> int \<Rightarrow> 'surf coarsen2d \<Rightarrow> 'surf coarsen2d" where
  "reevaluate c v s =
     (if is_owned_node c (mesh s) v
      then (case coarsen_identify_kernel c s v (stored_L_low s) (stored_L_max s) of
              (r, s') \<Rightarrow> s'\<lparr>dynamic_vertex := (dynamic_vertex s')[nat v := r]\<rparr>)
      else s)"

text \<open>
  \<open>coarsen_kernel\<close> in two parts: the collapse proper, up to
  \<open>dynamic_vertex[rm_vertex] = -1\<close>, and the re-evaluation of the target and of its
  current neighbours.
\<close>

definition collapse_vertex ::
  "'surf collab \<Rightarrow> 'surf coarsen2d \<Rightarrow> int \<Rightarrow> int \<Rightarrow> 'surf coarsen2d option" where
  "collapse_vertex c s rm_vertex target_vertex =
     (let m0 = mesh s;
          deleted_elements =
            set_intersection (NEList m0 ! nat rm_vertex) (NEList m0 ! nat target_vertex);
          sf1 = (if contains_node c (surface s) rm_vertex
                    \<and> contains_node c (surface s) target_vertex
                 then surface_collapse c (surface s) rm_vertex target_vertex
                 else surface s);
          m1 = fold (\<lambda>de m. erase_element 3 m de) deleted_elements m0;
          m2 = fold (renumber_element rm_vertex target_vertex) (NEList m1 ! nat rm_vertex) m1
      in case update_back_references rm_vertex target_vertex (NNList m2 ! nat rm_vertex)
                (m2, get_node_patch m2 target_vertex) of
           None \<Rightarrow> None
         | Some (m3, new_patch) \<Rightarrow>
             (let m4 = m3\<lparr>NNList := (NNList m3)[nat target_vertex :=
                            filter (\<lambda>x. x \<noteq> rm_vertex) new_patch]\<rparr>;
                  m5 = erase_vertex m4 rm_vertex
              in Some (s\<lparr>mesh := m5, surface := sf1,
                         dynamic_vertex := (dynamic_vertex s)[nat rm_vertex := -1]\<rparr>)))"

definition coarsen_kernel ::
  "'surf collab \<Rightarrow> 'surf coarsen2d \<Rightarrow> int \<Rightarrow> int \<Rightarrow> 'surf coarsen2d option" where
  "coarsen_kernel c s rm_vertex target_vertex =
     (case collapse_vertex c s rm_vertex target_vertex of
        None \<Rightarrow> None
      | Some s1 \<Rightarrow>
          (let s2 = reevaluate c target_vertex s1
           in Some (fold (reevaluate c) (NNList (mesh s2) ! nat target_vertex) s2)))"

text \<open>
  The conditions of the specification, in its words: a candidate target of \<open>v\<close> and an
  acceptable collapse of \<open>v\<close> onto \<open>t\<close>. The area ratio of a surviving element is the
  quotient of its area after the collapse by its area before, as numbers; it is
  meaningful when both areas are finite and the area before is not zero, which
  \<open>areas_nondegenerate\<close> states for the elements around \<open>v\<close> and the neighbours of \<open>v\<close>.
\<close>

definition orig_area_of :: "'surf collab \<Rightarrow> mesh \<Rightarrow> int \<Rightarrow> double" where
  "orig_area_of c m ee =
     (let orig_n = get_element 3 m ee
      in area c (get_coords 2 m (orig_n ! 0)) (get_coords 2 m (orig_n ! 1))
           (get_coords 2 m (orig_n ! 2)))"

definition new_area_of :: "'surf collab \<Rightarrow> mesh \<Rightarrow> int \<Rightarrow> int \<Rightarrow> int \<Rightarrow> double" where
  "new_area_of c m rm_vertex target_vertex ee =
     (let orig_n = get_element 3 m ee;
          n = map (\<lambda>nid. if nid = rm_vertex then target_vertex else nid) orig_n
      in area c (get_coords 2 m (n ! 0)) (get_coords 2 m (n ! 1)) (get_coords 2 m (n ! 2)))"

definition area_ratio :: "'surf collab \<Rightarrow> mesh \<Rightarrow> int \<Rightarrow> int \<Rightarrow> int \<Rightarrow> real" where
  "area_ratio c m rm_vertex target_vertex ee =
     real_of (new_area_of c m rm_vertex target_vertex ee) / real_of (orig_area_of c m ee)"

definition areas_nondegenerate :: "'surf collab \<Rightarrow> mesh \<Rightarrow> int \<Rightarrow> bool" where
  "areas_nondegenerate c m v \<longleftrightarrow>
     (\<forall>ee \<in> set (NEList m ! nat v).
         is_finite (orig_area_of c m ee) \<and> \<not> is_zero (orig_area_of c m ee)
         \<and> (\<forall>t \<in> set (NNList m ! nat v). is_finite (new_area_of c m v t ee)))"

definition collapse_candidate ::
  "'surf collab \<Rightarrow> mesh \<Rightarrow> 'surf \<Rightarrow> int \<Rightarrow> real \<Rightarrow> int \<Rightarrow> bool" where
  "collapse_candidate c m sf v L_low t \<longleftrightarrow>
     t \<in> set (NNList m ! nat v) \<and> t \<notin> set (recv_halo m) \<and> is_collapsible c sf v t
       \<and> calc_edge_length c m v t < L_low"

definition collapse_acceptable :: "'surf collab \<Rightarrow> mesh \<Rightarrow> int \<Rightarrow> real \<Rightarrow> int \<Rightarrow> bool" where
  "collapse_acceptable c m v L_max t \<longleftrightarrow>
     (\<forall>ee \<in> set (NEList m ! nat v).
         ee \<notin> set (NEList m ! nat t) \<longrightarrow> area_ratio c m v t ee > 1 / 1000)
     \<and> (\<forall>nn \<in> set (NNList m ! nat v). nn \<noteq> t \<longrightarrow> calc_edge_length c m t nn \<le> L_max)"

definition short_edges_of ::
  "'surf collab \<Rightarrow> 'surf coarsen2d \<Rightarrow> int \<Rightarrow> real \<Rightarrow> (real \<times> int) list" where
  "short_edges_of c s v L_low =
     collect_short_edges c (mesh s) (surface s) v L_low (NNList (mesh s) ! nat v) []"


text \<open>
  A small mesh used to run the operators: the strip of two triangles \<open>(0,1,3)\<close> and
  \<open>(1,2,3)\<close> over the points \<open>(0,0)\<close>, \<open>(1,0)\<close>, \<open>(2,0)\<close>, \<open>(1,1)\<close>; vertex \<open>1\<close> lies
  on the straight lower boundary, the other three are corners.
\<close>

definition strip_collab :: "unit collab" where
  "strip_collab =
     \<lparr>is_owned_node = (\<lambda>m v. True),
      is_halo_node = (\<lambda>m v. False),
      calc_edge_length = (\<lambda>m a b.
         if {a, b} = {0, 1} then 6 / 10 else if {a, b} = {1, 2} then 5 / 10
         else if {a, b} = {1, 3} then 4 / 10 else if {a, b} = {0, 2} then 11 / 10 else 1),
      area = (\<lambda>x0 x1 x2.
         Num (((real_of (x1 ! 0) - real_of (x0 ! 0)) * (real_of (x2 ! 1) - real_of (x0 ! 1))
               - (real_of (x2 ! 0) - real_of (x0 ! 0)) * (real_of (x1 ! 1) - real_of (x0 ! 1))) / 2)),
      property_length = (\<lambda>x0 x1 m. Num 1),
      lipnikov = (\<lambda>m n. 1),
      past_the_end = (\<lambda>i row. -1),
      is_corner_vertex = (\<lambda>sf v. v \<noteq> 1),
      is_collapsible = (\<lambda>sf a b. b \<noteq> 3),
      contains_node = (\<lambda>sf v. True),
      surface_collapse = (\<lambda>sf a b. sf)\<rparr>"

definition strip_mesh :: mesh where
  "strip_mesh =
     \<lparr>NNodes = 4, NElements = 2,
      NNList = [[1, 3], [0, 2, 3], [1, 3], [0, 1, 2]],
      NEList = [[0], [0, 1], [1], [0, 1]],
      ENList = [0, 1, 3, 1, 2, 3],
      coords = map Num [0, 0, 1, 0, 2, 0, 1, 1],
      metric = map Num [1, 0, 1, 1, 0, 1, 1, 0, 1, 1, 0, 1],
      lnn2gnn = [0, 1, 2, 3],
      node_owner = [0, 0, 0, 0],
      recv_halo = []\<rparr>"

text \<open>The same strip flattened onto the line \<open>y = 0\<close>: every element has area zero.\<close>

definition flat_mesh :: mesh where
  "flat_mesh = strip_mesh\<lparr>coords := map Num [0, 0, 1, 0, 2, 0, 3, 0]\<rparr>"

definition strip_coarsen :: "unit coarsen2d" where
  "strip_coarsen =
     \<lparr>mesh = strip_mesh, surface = (), dynamic_vertex = [],
      stored_L_low = 7 / 10, stored_L_max = 12 / 10\<rparr>"

definition active_vertex :: "'surf collab \<Rightarrow> 'surf coarsen2d \<Rightarrow> int \<Rightarrow> bool" where
  "active_vertex c s v \<longleftrightarrow>
     NNList (mesh s) ! nat v \<noteq> [] \<and> \<not> is_corner_vertex c (surface s) v
       \<and> is_owned_node c (mesh s) v"

definition strip_identified :: "unit coarsen2d" where
  "strip_identified = strip_coarsen\<lparr>dynamic_vertex := [-1, 2, -1, -1]\<rparr>"

definition strip_collapsed :: "unit coarsen2d" where
  "strip_collapsed =
     strip_identified\<lparr>mesh := strip_mesh\<lparr>NNList := [[2, 3], [], [0, 3], [0, 2]],
          NEList := [[0], [], [0], [0]], ENList := [0, 2, 3, -1, 2, 3]\<rparr>,
        dynamic_vertex := [-1, -1, -1, -1]\<rparr>"

subsection \<open>Identification of the collapse target\<close>

lemma multimap_insert_set: "set (multimap_insert p qs) = insert p (set qs)"
  by (induction qs) auto

lemma multimap_insert_sorted:
  "sorted (map fst qs) \<Longrightarrow> sorted (map fst (multimap_insert p qs))"
  by (induction qs) (auto simp: multimap_insert_set)

lemma collect_short_edges_set:
  "set (collect_short_edges c m sf v L nns acc) =
     set acc \<union> (\<lambda>nn. (calc_edge_length c m v nn, nn)) `
        {nn \<in> set nns. nn \<notin> set (recv_halo m) \<and> is_collapsible c sf v nn
                        \<and> calc_edge_length c m v nn < L}"
  by (induction nns arbitrary: acc) (auto simp: multimap_insert_set)

lemma collect_short_edges_sorted:
  "sorted (map fst acc) \<Longrightarrow> sorted (map fst (collect_short_edges c m sf v L nns acc))"
  by (induction nns arbitrary: acc) (auto simp: multimap_insert_sorted)

lemma try_short_edges_find:
  "try_short_edges c m v L es st =
     (case find (\<lambda>e. \<not> reject_collapse_of c m v L (snd e)) es of
        Some e \<Rightarrow> (False, snd e)
      | None \<Rightarrow> (if es = [] then st else (True, snd (last es))))"
  by (induction es arbitrary: st) (auto split: option.splits)

lemma sorted_find_least:
  "sorted (map fst es) \<Longrightarrow> find P es = Some e \<Longrightarrow> e' \<in> set es \<Longrightarrow> P e' \<Longrightarrow> fst e \<le> fst e'"
  by (induction es) (auto split: if_splits)

lemma dle_ddiv_finite:
  assumes "is_finite a" "is_finite b" "\<not> is_zero b"
  shows "dle (ddiv a b) (Num k) \<longleftrightarrow> real_of a / real_of b \<le> k"
  using assms by (cases a; cases b) (auto simp: ddiv_def dle_def signed_zero_def)

lemma area_rejects_step:
  "area_rejects c m v t col (ee # ees) \<longleftrightarrow>
     (ee \<notin> set col
        \<and> dle (ddiv (new_area_of c m v t ee) (orig_area_of c m ee)) (Num (1 / 1000)))
     \<or> area_rejects c m v t col ees"
  by (auto simp: new_area_of_def orig_area_of_def Let_def)

lemma area_rejects_iff:
  assumes "\<forall>ee \<in> set ees. is_finite (orig_area_of c m ee) \<and> \<not> is_zero (orig_area_of c m ee)
             \<and> is_finite (new_area_of c m v t ee)"
  shows "area_rejects c m v t col ees \<longleftrightarrow>
     (\<exists>ee \<in> set ees. ee \<notin> set col \<and> area_ratio c m v t ee \<le> 1 / 1000)"
  using assms
proof (induction ees)
  case Nil
  then show ?case by simp
next
  case (Cons ee ees)
  from Cons.prems have
    "dle (ddiv (new_area_of c m v t ee) (orig_area_of c m ee)) (Num (1 / 1000))
       \<longleftrightarrow> area_ratio c m v t ee \<le> 1 / 1000"
    by (simp add: dle_ddiv_finite area_ratio_def)
  moreover from Cons have "area_rejects c m v t col ees \<longleftrightarrow>
     (\<exists>ee \<in> set ees. ee \<notin> set col \<and> area_ratio c m v t ee \<le> 1 / 1000)"
    by simp
  ultimately show ?case
    by (simp only: area_rejects_step) auto
qed

lemma length_rejects_iff:
  "length_rejects c m t L nns \<longleftrightarrow> (\<exists>nn \<in> set nns. nn \<noteq> t \<and> calc_edge_length c m t nn > L)"
  by (induction nns) auto

lemma reject_collapse_of_iff:
  assumes "areas_nondegenerate c m v" "t \<in> set (NNList m ! nat v)"
  shows "reject_collapse_of c m v L t \<longleftrightarrow> \<not> collapse_acceptable c m v L t"
proof -
  have "\<forall>ee \<in> set (NEList m ! nat v).
          is_finite (orig_area_of c m ee) \<and> \<not> is_zero (orig_area_of c m ee)
          \<and> is_finite (new_area_of c m v t ee)"
    using assms by (auto simp: areas_nondegenerate_def)
  then show ?thesis
    by (auto simp: reject_collapse_of_def collapse_acceptable_def area_rejects_iff
        length_rejects_iff set_intersection_def Let_def not_less not_le)
qed


text \<open>
  On the flattened strip both areas of a surviving element are zero, the quotient is
  NaN and the comparison with \<open>1.0e-3\<close> is false: the area loop rejects nothing, and
  the kernel returns the nearest candidate.
\<close>

lemma area_rejects_zero_area:
  "orig_area_of strip_collab flat_mesh 0 = Num 0
   \<and> ddiv (new_area_of strip_collab flat_mesh 1 2 0) (orig_area_of strip_collab flat_mesh 0) = NaN
   \<and> \<not> area_rejects strip_collab flat_mesh 1 2 [1] [0, 1]
   \<and> fst (coarsen_identify_kernel strip_collab (strip_coarsen\<lparr>mesh := flat_mesh\<rparr>) 1
            (7 / 10) (12 / 10)) = 2"
  by (simp add: flat_mesh_def strip_collab_def strip_coarsen_def strip_mesh_def
      coarsen_identify_kernel_def reject_collapse_of_def set_intersection_def
      get_element_def get_coords_def Let_def doubleton_eq_iff orig_area_of_def
      new_area_of_def ddiv_def dle_def)

lemma coarsen_identify_kernel_snd: "snd (coarsen_identify_kernel c s v l h) = s"
  by (simp add: coarsen_identify_kernel_def Let_def split: prod.splits)

lemma coarsen_identify_kernel_fst_cong:
  "mesh s' = mesh s \<Longrightarrow> surface s' = surface s \<Longrightarrow>
     fst (coarsen_identify_kernel c s' v l h) = fst (coarsen_identify_kernel c s v l h)"
  by (simp add: coarsen_identify_kernel_def Let_def split: prod.splits)

lemma short_edges_of_set:
  "e \<in> set (short_edges_of c s v L) \<longleftrightarrow>
     collapse_candidate c (mesh s) (surface s) v L (snd e)
       \<and> fst e = calc_edge_length c (mesh s) v (snd e)"
  by (cases e) (auto simp: short_edges_of_def collect_short_edges_set collapse_candidate_def)

lemma short_edges_of_sorted: "sorted (map fst (short_edges_of c s v L))"
  by (simp add: short_edges_of_def collect_short_edges_sorted)

lemma coarsen_identify_kernel_find:
  assumes "NNList (mesh s) ! nat v \<noteq> []" "\<not> is_corner_vertex c (surface s) v"
    "is_owned_node c (mesh s) v"
  shows "fst (coarsen_identify_kernel c s v L_low L_max) =
     (case find (\<lambda>e. \<not> reject_collapse_of c (mesh s) v L_max (snd e))
             (short_edges_of c s v L_low) of
        Some e \<Rightarrow> snd e
      | None \<Rightarrow> (if short_edges_of c s v L_low = [] then -1 else -2))"
  using assms
  by (simp add: coarsen_identify_kernel_def Let_def try_short_edges_find
      short_edges_of_def split: option.splits prod.splits)

lemma coarsen_identify_kernel_active:
  assumes "NNList (mesh s) ! nat v \<noteq> []" "\<not> is_corner_vertex c (surface s) v"
    "is_owned_node c (mesh s) v"
    and nd: "areas_nondegenerate c (mesh s) v"
  shows "fst (coarsen_identify_kernel c s v L_low L_max) =
     (case find (\<lambda>e. collapse_acceptable c (mesh s) v L_max (snd e))
             (short_edges_of c s v L_low) of
        Some e \<Rightarrow> snd e
      | None \<Rightarrow> (if short_edges_of c s v L_low = [] then -1 else -2))"
proof -
  have "find (\<lambda>e. \<not> reject_collapse_of c (mesh s) v L_max (snd e)) (short_edges_of c s v L_low)
          = find (\<lambda>e. collapse_acceptable c (mesh s) v L_max (snd e))
              (short_edges_of c s v L_low)"
    by (rule find_cong [OF refl])
      (simp add: short_edges_of_set collapse_candidate_def reject_collapse_of_iff [OF nd])
  then show ?thesis
    using coarsen_identify_kernel_find [OF assms(1-3), of L_low L_max] by simp
qed

lemma coarsen_identify_kernel_first_acceptable:
  assumes "NNList (mesh s) ! nat v \<noteq> []" "\<not> is_corner_vertex c (surface s) v"
    "is_owned_node c (mesh s) v"
    and nd: "areas_nondegenerate c (mesh s) v"
    and cand: "collapse_candidate c (mesh s) (surface s) v L_low u"
    and acc: "collapse_acceptable c (mesh s) v L_max u"
  shows "collapse_candidate c (mesh s) (surface s) v L_low
           (fst (coarsen_identify_kernel c s v L_low L_max))
       \<and> collapse_acceptable c (mesh s) v L_max
           (fst (coarsen_identify_kernel c s v L_low L_max))
       \<and> calc_edge_length c (mesh s) v (fst (coarsen_identify_kernel c s v L_low L_max))
           \<le> calc_edge_length c (mesh s) v u"
proof -
  let ?es = "short_edges_of c s v L_low"
  let ?P = "\<lambda>e. collapse_acceptable c (mesh s) v L_max (snd e)"
  have u_in: "(calc_edge_length c (mesh s) v u, u) \<in> set ?es"
    using cand by (simp add: short_edges_of_set)
  with acc have "\<exists>e \<in> set ?es. ?P e" by force
  then obtain e where fe: "find ?P ?es = Some e"
    by (cases "find ?P ?es") (auto simp: find_None_iff)
  then have e_in: "e \<in> set ?es" and Pe: "?P e"
    by (auto simp: find_Some_iff)
  have res: "fst (coarsen_identify_kernel c s v L_low L_max) = snd e"
    using assms(1-4) fe by (simp add: coarsen_identify_kernel_active)
  have "fst e \<le> calc_edge_length c (mesh s) v u"
    using sorted_find_least [OF short_edges_of_sorted fe u_in] acc by simp
  with e_in Pe res show ?thesis by (simp add: short_edges_of_set)
qed


text \<open>
  Claim C3. For a vertex \<open>v\<close> that has neighbours, is not a corner and is owned,
  on a mesh whose elements around \<open>v\<close> have a finite area other than zero and keep a
  finite area when \<open>v\<close> is moved onto a neighbour (\<open>areas_nondegenerate\<close>), if
  some neighbour \<open>u\<close> is a candidate (reached by an edge shorter than \<open>L_low\<close>, not in
  the receive halo, collapsible) and acceptable (every surviving element keeps an
  area ratio above \<open>10\<^sup>-\<^sup>3\<close> and no new edge from it exceeds \<open>L_max\<close>), then
  \<open>coarsen_identify_kernel\<close> returns a candidate that is acceptable and whose edge is
  no longer than that of any such \<open>u\<close>: candidates are tried by increasing length
  and the shortest passing one is returned.
\<close>

theorem coarsen_identify_kernel_shortest:
  assumes "NNList (mesh s) ! nat v \<noteq> []" "\<not> is_corner_vertex c (surface s) v"
    "is_owned_node c (mesh s) v"
    and nd: "areas_nondegenerate c (mesh s) v"
    and cand: "collapse_candidate c (mesh s) (surface s) v L_low u"
    and acc: "collapse_acceptable c (mesh s) v L_max u"
  shows "collapse_candidate c (mesh s) (surface s) v L_low
           (fst (coarsen_identify_kernel c s v L_low L_max))
       \<and> collapse_acceptable c (mesh s) v L_max
           (fst (coarsen_identify_kernel c s v L_low L_max))
       \<and> calc_edge_length c (mesh s) v (fst (coarsen_identify_kernel c s v L_low L_max))
           \<le> calc_edge_length c (mesh s) v u"
  using assms by (rule coarsen_identify_kernel_first_acceptable)

theorem coarsen_identify_kernel_shortest_witness:
  "NNList (mesh strip_coarsen) ! nat 1 \<noteq> []
   \<and> \<not> is_corner_vertex strip_collab (surface strip_coarsen) 1
   \<and> is_owned_node strip_collab (mesh strip_coarsen) 1
   \<and> areas_nondegenerate strip_collab (mesh strip_coarsen) 1
   \<and> collapse_candidate strip_collab (mesh strip_coarsen) (surface strip_coarsen) 1 (7 / 10) 0
   \<and> collapse_acceptable strip_collab (mesh strip_coarsen) 1 (12 / 10) 0
   \<and> fst (coarsen_identify_kernel strip_collab strip_coarsen 1 (7 / 10) (12 / 10)) = 2
   \<and> calc_edge_length strip_collab (mesh strip_coarsen) 1 2
        \<le> calc_edge_length strip_collab (mesh strip_coarsen) 1 0"
  using coarsen_identify_kernel_shortest [of strip_coarsen 1 strip_collab "7 / 10" 0 "12 / 10"]
  by (simp add: coarsen_identify_kernel_def strip_collab_def strip_coarsen_def strip_mesh_def
      reject_collapse_of_def set_intersection_def get_element_def get_coords_def Let_def
      doubleton_eq_iff collapse_candidate_def collapse_acceptable_def area_ratio_def
      areas_nondegenerate_def orig_area_of_def new_area_of_def ddiv_def dle_def)

lemma coarsen_identify_kernel_inactive:
  "\<not> active_vertex c s v \<Longrightarrow> fst (coarsen_identify_kernel c s v L_low L_max) = -1"
  by (auto simp: active_vertex_def coarsen_identify_kernel_def)

lemma identify_vertex_frame:
  "mesh (identify_vertex c l h i s) = mesh s"
  "surface (identify_vertex c l h i s) = surface s"
  "length (dynamic_vertex (identify_vertex c l h i s)) = length (dynamic_vertex s)"
  using coarsen_identify_kernel_snd [of c s "int i" l h]
  by (auto simp: identify_vertex_def split: prod.splits)

lemma identify_vertex_nth:
  "j < length (dynamic_vertex s) \<Longrightarrow>
     dynamic_vertex (identify_vertex c l h i s) ! j =
       (if j = i \<and> dynamic_vertex s ! i = -2
        then fst (coarsen_identify_kernel c s (int i) l h) else dynamic_vertex s ! j)"
  using coarsen_identify_kernel_snd [of c s "int i" l h]
  by (auto simp: identify_vertex_def nth_list_update split: prod.splits)

lemma fold_identify_vertex:
  "distinct is \<Longrightarrow> j < length (dynamic_vertex s) \<Longrightarrow>
     mesh (fold (identify_vertex c l h) is s) = mesh s
     \<and> surface (fold (identify_vertex c l h) is s) = surface s
     \<and> length (dynamic_vertex (fold (identify_vertex c l h) is s)) = length (dynamic_vertex s)
     \<and> dynamic_vertex (fold (identify_vertex c l h) is s) ! j =
         (if j \<in> set is \<and> dynamic_vertex s ! j = -2
          then fst (coarsen_identify_kernel c s (int j) l h) else dynamic_vertex s ! j)"
proof (induction "is" arbitrary: s)
  case Nil
  then show ?case by simp
next
  case (Cons i "is")
  let ?s1 = "identify_vertex c l h i s"
  have k: "fst (coarsen_identify_kernel c ?s1 (int j) l h)
             = fst (coarsen_identify_kernel c s (int j) l h)"
    by (rule coarsen_identify_kernel_fst_cong) (simp_all add: identify_vertex_frame)
  from Cons.prems have d: "distinct is" and ni: "i \<notin> set is" by simp_all
  from Cons.prems have j1: "j < length (dynamic_vertex ?s1)"
    by (simp add: identify_vertex_frame)
  show ?case
    using Cons.IH [OF d j1] Cons.prems ni
    by (auto simp: identify_vertex_frame identify_vertex_nth k)
qed

lemma coarsen_identify_nth:
  assumes "i < NNodes (mesh s)"
  shows "dynamic_vertex (coarsen_identify c s L_low L_max) ! i
           = fst (coarsen_identify_kernel c s (int i) L_low L_max)"
proof -
  let ?s0 = "init_dynamic_vertex (s\<lparr>stored_L_low := L_low, stored_L_max := L_max\<rparr>)"
  have m: "mesh ?s0 = mesh s" "surface ?s0 = surface s"
    by (simp_all add: init_dynamic_vertex_def)
  have len: "i < length (dynamic_vertex ?s0)"
    using assms by (simp add: init_dynamic_vertex_def)
  have d0: "dynamic_vertex ?s0 ! i = (if NNList (mesh s) ! i = [] then -1 else -2)"
    using assms by (simp add: init_dynamic_vertex_def)
  have k: "fst (coarsen_identify_kernel c ?s0 (int i) L_low L_max)
             = fst (coarsen_identify_kernel c s (int i) L_low L_max)"
    by (rule coarsen_identify_kernel_fst_cong) (simp_all add: m)
  have e: "NNList (mesh s) ! i = [] \<Longrightarrow>
             fst (coarsen_identify_kernel c s (int i) L_low L_max) = -1"
    by (simp add: coarsen_identify_kernel_def)
  have "dynamic_vertex (fold (identify_vertex c L_low L_max) [0..<NNodes (mesh s)] ?s0) ! i =
         (if i \<in> set [0..<NNodes (mesh s)] \<and> dynamic_vertex ?s0 ! i = -2
          then fst (coarsen_identify_kernel c ?s0 (int i) L_low L_max)
          else dynamic_vertex ?s0 ! i)"
    using fold_identify_vertex [OF _ len, of "[0..<NNodes (mesh s)]" c L_low L_max] by simp
  then show ?thesis
    using assms d0 k e by (simp add: coarsen_identify_def m split: if_splits)
qed

subsection \<open>What the identification records\<close>

text \<open>
  Claim C6, as amended. After the identification loops of \<open>coarsen\<close>, the entry
  \<open>dynamic_vertex[i]\<close> of a vertex \<open>i < NNodes\<close> is: \<open>-1\<close> when the vertex is inactive
  (no neighbours, a corner, or not owned) or has no candidate edge; \<open>-2\<close> when it has
  a candidate edge and every candidate is rejected; and otherwise a candidate that
  is acceptable, the collapse target. The claim as stated has \<open>-1\<close> in the second
  case; the source returns \<open>-2\<close> there. Rejection and acceptance are those of the
  specification (area ratio, new edge lengths) on a mesh whose elements around the
  vertex have a finite area other than zero (\<open>areas_nondegenerate\<close>).
\<close>

theorem coarsen_identify_records:
  assumes "i < NNodes (mesh s)"
  shows "(\<not> active_vertex c s (int i) \<longrightarrow>
            dynamic_vertex (coarsen_identify c s L_low L_max) ! i = -1)
       \<and> (active_vertex c s (int i)
            \<and> \<not> (\<exists>t. collapse_candidate c (mesh s) (surface s) (int i) L_low t) \<longrightarrow>
            dynamic_vertex (coarsen_identify c s L_low L_max) ! i = -1)
       \<and> (active_vertex c s (int i) \<and> areas_nondegenerate c (mesh s) (int i)
            \<and> (\<exists>t. collapse_candidate c (mesh s) (surface s) (int i) L_low t)
            \<and> \<not> (\<exists>t. collapse_candidate c (mesh s) (surface s) (int i) L_low t
                       \<and> collapse_acceptable c (mesh s) (int i) L_max t) \<longrightarrow>
            dynamic_vertex (coarsen_identify c s L_low L_max) ! i = -2)
       \<and> (active_vertex c s (int i) \<and> areas_nondegenerate c (mesh s) (int i)
            \<and> (\<exists>t. collapse_candidate c (mesh s) (surface s) (int i) L_low t
                       \<and> collapse_acceptable c (mesh s) (int i) L_max t) \<longrightarrow>
            collapse_candidate c (mesh s) (surface s) (int i) L_low
              (dynamic_vertex (coarsen_identify c s L_low L_max) ! i)
            \<and> collapse_acceptable c (mesh s) (int i) L_max
              (dynamic_vertex (coarsen_identify c s L_low L_max) ! i))"
proof -
  let ?es = "short_edges_of c s (int i) L_low"
  let ?P = "\<lambda>e. collapse_acceptable c (mesh s) (int i) L_max (snd e)"
  have none: "\<not> (\<exists>t. collapse_candidate c (mesh s) (surface s) (int i) L_low t) \<Longrightarrow> ?es = []"
  proof (rule ccontr)
    assume a: "\<not> (\<exists>t. collapse_candidate c (mesh s) (surface s) (int i) L_low t)"
      and "?es \<noteq> []"
    then obtain e where "e \<in> set ?es" by (cases ?es) auto
    with a show False by (auto simp: short_edges_of_set)
  qed
  have some: "collapse_candidate c (mesh s) (surface s) (int i) L_low t \<Longrightarrow> ?es \<noteq> []" for t
  proof -
    assume "collapse_candidate c (mesh s) (surface s) (int i) L_low t"
    then have "(calc_edge_length c (mesh s) (int i) t, t) \<in> set ?es"
      by (simp add: short_edges_of_set)
    then show "?es \<noteq> []" by auto
  qed
  have rej: "\<not> (\<exists>t. collapse_candidate c (mesh s) (surface s) (int i) L_low t
                       \<and> collapse_acceptable c (mesh s) (int i) L_max t)
             \<Longrightarrow> find ?P ?es = None"
    by (auto simp: find_None_iff short_edges_of_set)
  let ?d = "dynamic_vertex (coarsen_identify c s L_low L_max) ! i"
  have d: "?d = fst (coarsen_identify_kernel c s (int i) L_low L_max)"
    by (rule coarsen_identify_nth [OF assms])
  have p1: "\<not> active_vertex c s (int i) \<Longrightarrow> ?d = -1"
    by (simp add: d coarsen_identify_kernel_inactive)
  have p2: "active_vertex c s (int i) \<Longrightarrow>
              \<not> (\<exists>t. collapse_candidate c (mesh s) (surface s) (int i) L_low t) \<Longrightarrow> ?d = -1"
    using none by (simp add: d coarsen_identify_kernel_find active_vertex_def)
  have p3: "active_vertex c s (int i) \<Longrightarrow> areas_nondegenerate c (mesh s) (int i) \<Longrightarrow>
              (\<exists>t. collapse_candidate c (mesh s) (surface s) (int i) L_low t) \<Longrightarrow>
              \<not> (\<exists>t. collapse_candidate c (mesh s) (surface s) (int i) L_low t
                       \<and> collapse_acceptable c (mesh s) (int i) L_max t) \<Longrightarrow> ?d = -2"
    using some rej by (auto simp: d coarsen_identify_kernel_active active_vertex_def)
  have p4: "active_vertex c s (int i) \<Longrightarrow> areas_nondegenerate c (mesh s) (int i) \<Longrightarrow>
              (\<exists>t. collapse_candidate c (mesh s) (surface s) (int i) L_low t
                       \<and> collapse_acceptable c (mesh s) (int i) L_max t) \<Longrightarrow>
              collapse_candidate c (mesh s) (surface s) (int i) L_low ?d
              \<and> collapse_acceptable c (mesh s) (int i) L_max ?d"
    using coarsen_identify_kernel_first_acceptable [of s "int i" c L_low _ L_max]
    by (auto simp: d active_vertex_def)
  from p1 p2 p3 p4 show ?thesis by blast
qed


lemmas strip_defs =
  strip_collab_def strip_coarsen_def strip_mesh_def coarsen_identify_kernel_def
  reject_collapse_of_def set_intersection_def get_element_def get_coords_def Let_def
  doubleton_eq_iff collapse_candidate_def collapse_acceptable_def area_ratio_def
  active_vertex_def areas_nondegenerate_def orig_area_of_def new_area_of_def ddiv_def dle_def

theorem coarsen_identify_records_witness:
  "(1::nat) < NNodes (mesh strip_coarsen)
   \<and> active_vertex strip_collab strip_coarsen (int 1)
   \<and> areas_nondegenerate strip_collab (mesh strip_coarsen) (int 1)
   \<and> (\<exists>t. collapse_candidate strip_collab (mesh strip_coarsen) (surface strip_coarsen)
             (int 1) (7 / 10) t)
   \<and> \<not> (\<exists>t. collapse_candidate strip_collab (mesh strip_coarsen) (surface strip_coarsen)
             (int 1) (7 / 10) t
           \<and> collapse_acceptable strip_collab (mesh strip_coarsen) (int 1) 1 t)
   \<and> dynamic_vertex (coarsen_identify strip_collab strip_coarsen (7 / 10) 1) ! 1 = -2"
proof -
  have a: "(1::nat) < NNodes (mesh strip_coarsen)"
    by (simp add: strip_coarsen_def strip_mesh_def)
  have b: "active_vertex strip_collab strip_coarsen (int 1)"
    by (simp add: strip_defs)
  have n: "areas_nondegenerate strip_collab (mesh strip_coarsen) (int 1)"
    by (simp add: strip_defs)
  have c: "collapse_candidate strip_collab (mesh strip_coarsen) (surface strip_coarsen)
             (int 1) (7 / 10) 0"
    by (simp add: strip_defs)
  have d: "\<not> (\<exists>t. collapse_candidate strip_collab (mesh strip_coarsen) (surface strip_coarsen)
             (int 1) (7 / 10) t
           \<and> collapse_acceptable strip_collab (mesh strip_coarsen) (int 1) 1 t)"
    by (auto simp: strip_defs)
  from a b n c d coarsen_identify_records [OF a, of strip_collab "7 / 10" 1]
  show ?thesis by blast
qed

text \<open>
  On the strip, with \<open>L_low = 0.7\<close> and \<open>L_max = 1\<close>, vertex \<open>1\<close> has the two candidates
  \<open>2\<close> and \<open>0\<close>; both are rejected, since each collapse would create the edge \<open>(0,2)\<close>
  of length \<open>1.1\<close>; the recorded value is \<open>-2\<close>, not \<open>-1\<close>.
\<close>

theorem coarsen_reject_all_counterexample:
  "short_edges_of strip_collab strip_coarsen 1 (7 / 10) = [(5 / 10, 2), (6 / 10, 0)]
   \<and> \<not> collapse_acceptable strip_collab (mesh strip_coarsen) 1 1 2
   \<and> \<not> collapse_acceptable strip_collab (mesh strip_coarsen) 1 1 0
   \<and> dynamic_vertex (coarsen_identify strip_collab strip_coarsen (7 / 10) 1) ! 1 = -2
   \<and> dynamic_vertex (coarsen_identify strip_collab strip_coarsen (7 / 10) 1) ! 1 \<noteq> -1"
proof -
  have a: "short_edges_of strip_collab strip_coarsen 1 (7 / 10) = [(5 / 10, 2), (6 / 10, 0)]"
    by (simp add: short_edges_of_def strip_collab_def strip_coarsen_def strip_mesh_def
        doubleton_eq_iff)
  have b: "\<not> collapse_acceptable strip_collab (mesh strip_coarsen) 1 1 2"
    "\<not> collapse_acceptable strip_collab (mesh strip_coarsen) 1 1 0"
    by (simp_all add: strip_defs)
  have "(1::nat) < NNodes (mesh strip_coarsen)"
    by (simp add: strip_coarsen_def strip_mesh_def)
  then have "dynamic_vertex (coarsen_identify strip_collab strip_coarsen (7 / 10) 1) ! 1
               = fst (coarsen_identify_kernel strip_collab strip_coarsen (int 1) (7 / 10) 1)"
    by (rule coarsen_identify_nth)
  also have "\<dots> = -2"
    by (simp add: strip_defs)
  finally show ?thesis using a b by simp
qed

subsection \<open>The identification kernel only observes\<close>

text \<open>
  Claim C10. \<open>coarsen_identify_kernel\<close> returns the object it was given: mesh,
  surface and \<open>dynamic_vertex\<close> are unchanged; its result does not depend on
  \<open>dynamic_vertex\<close>; and the identification phase of \<open>coarsen\<close>, which stores the
  results, leaves the mesh and the surface as they were.
\<close>

theorem coarsen_identify_kernel_observational:
  "snd (coarsen_identify_kernel c s v L_low L_max) = s
   \<and> fst (coarsen_identify_kernel c (s\<lparr>dynamic_vertex := d\<rparr>) v L_low L_max)
       = fst (coarsen_identify_kernel c s v L_low L_max)
   \<and> mesh (coarsen_identify c s L_low L_max) = mesh s
   \<and> surface (coarsen_identify c s L_low L_max) = surface s"
proof -
  let ?s0 = "init_dynamic_vertex (s\<lparr>stored_L_low := L_low, stored_L_max := L_max\<rparr>)"
  have f: "mesh (fold (identify_vertex c L_low L_max) is s1) = mesh s1
            \<and> surface (fold (identify_vertex c L_low L_max) is s1) = surface s1" for "is" s1
    by (induction "is" arbitrary: s1) (simp_all add: identify_vertex_frame)
  have "mesh ?s0 = mesh s" "surface ?s0 = surface s"
    by (simp_all add: init_dynamic_vertex_def)
  then have g: "mesh (coarsen_identify c s L_low L_max) = mesh s
             \<and> surface (coarsen_identify c s L_low L_max) = surface s"
    by (simp add: coarsen_identify_def f)
  have k: "fst (coarsen_identify_kernel c (s\<lparr>dynamic_vertex := d\<rparr>) v L_low L_max)
             = fst (coarsen_identify_kernel c s v L_low L_max)"
    by (rule coarsen_identify_kernel_fst_cong) simp_all
  from g k show ?thesis
    by (simp add: coarsen_identify_kernel_snd)
qed


lemma reevaluate_frame:
  "mesh (reevaluate c v s) = mesh s"
  "surface (reevaluate c v s) = surface s"
  "stored_L_low (reevaluate c v s) = stored_L_low s"
  "stored_L_max (reevaluate c v s) = stored_L_max s"
  "length (dynamic_vertex (reevaluate c v s)) = length (dynamic_vertex s)"
  using coarsen_identify_kernel_snd [of c s v "stored_L_low s" "stored_L_max s"]
  by (auto simp: reevaluate_def split: prod.splits)

lemma reevaluate_nth:
  "j < length (dynamic_vertex s) \<Longrightarrow>
     dynamic_vertex (reevaluate c v s) ! j =
       (if j = nat v \<and> is_owned_node c (mesh s) v
        then fst (coarsen_identify_kernel c s v (stored_L_low s) (stored_L_max s))
        else dynamic_vertex s ! j)"
  using coarsen_identify_kernel_snd [of c s v "stored_L_low s" "stored_L_max s"]
  by (auto simp: reevaluate_def nth_list_update split: prod.splits)

lemma fold_reevaluate_frame:
  "mesh (fold (reevaluate c) ws s) = mesh s
   \<and> surface (fold (reevaluate c) ws s) = surface s
   \<and> stored_L_low (fold (reevaluate c) ws s) = stored_L_low s
   \<and> stored_L_max (fold (reevaluate c) ws s) = stored_L_max s
   \<and> length (dynamic_vertex (fold (reevaluate c) ws s)) = length (dynamic_vertex s)"
  by (induction ws arbitrary: s) (simp_all add: reevaluate_frame)

lemma fold_reevaluate_nth:
  assumes "\<forall>w' \<in> set ws. 0 \<le> w'" "0 \<le> w" "nat w < length (dynamic_vertex s)"
    "is_owned_node c (mesh s) w"
    "w \<in> set ws \<or> dynamic_vertex s ! nat w
        = fst (coarsen_identify_kernel c s w (stored_L_low s) (stored_L_max s))"
  shows "dynamic_vertex (fold (reevaluate c) ws s) ! nat w
           = fst (coarsen_identify_kernel c s w (stored_L_low s) (stored_L_max s))"
  using assms
proof (induction ws arbitrary: s)
  case Nil
  then show ?case by simp
next
  case (Cons v ws)
  let ?s1 = "reevaluate c v s"
  have k: "fst (coarsen_identify_kernel c ?s1 w (stored_L_low ?s1) (stored_L_max ?s1))
             = fst (coarsen_identify_kernel c s w (stored_L_low s) (stored_L_max s))"
    unfolding reevaluate_frame
    by (rule coarsen_identify_kernel_fst_cong) (simp_all add: reevaluate_frame)
  have v0: "0 \<le> v" using Cons.prems(1) by simp
  have step: "w \<in> set ws \<or> dynamic_vertex ?s1 ! nat w
        = fst (coarsen_identify_kernel c ?s1 w (stored_L_low ?s1) (stored_L_max ?s1))"
  proof (cases "w \<in> set ws")
    case True
    then show ?thesis by simp
  next
    case False
    show ?thesis
    proof (cases "v = w")
      case True
      then show ?thesis
        using Cons.prems(3,4) k by (simp add: reevaluate_nth)
    next
      case False
      with \<open>w \<notin> set ws\<close> Cons.prems(5) have
        "dynamic_vertex s ! nat w
           = fst (coarsen_identify_kernel c s w (stored_L_low s) (stored_L_max s))"
        by simp
      moreover have "nat w \<noteq> nat v"
        using False v0 Cons.prems(2) by simp
      ultimately show ?thesis
        using Cons.prems(3) by (simp add: k reevaluate_nth)
    qed
  qed
  have "dynamic_vertex (fold (reevaluate c) ws ?s1) ! nat w
          = fst (coarsen_identify_kernel c ?s1 w (stored_L_low ?s1) (stored_L_max ?s1))"
    using Cons.prems step by (intro Cons.IH) (simp_all add: reevaluate_frame)
  then show ?case by (simp add: k)
qed

lemma coarsen_kernel_shape:
  assumes "coarsen_kernel c s rm t = Some s'"
  shows "\<exists>s1. length (dynamic_vertex s1) = length (dynamic_vertex s)
              \<and> s' = fold (reevaluate c) (t # NNList (mesh s1) ! nat t) s1"
proof -
  from assms obtain s1 where c: "collapse_vertex c s rm t = Some s1"
    and s': "s' = fold (reevaluate c) (t # NNList (mesh s1) ! nat t) s1"
    by (auto simp: coarsen_kernel_def Let_def reevaluate_frame split: option.splits)
  from c have "length (dynamic_vertex s1) = length (dynamic_vertex s)"
    by (auto simp: collapse_vertex_def Let_def split: option.splits prod.splits)
  with s' show ?thesis by blast
qed

subsection \<open>Re-evaluation after a collapse\<close>

text \<open>
  Claim C7, as amended. When \<open>coarsen_kernel\<close> has collapsed \<open>rm\<close> onto \<open>t\<close>, the entry
  \<open>dynamic_vertex[w]\<close> of \<open>t\<close> itself and of every current neighbour \<open>w\<close> of \<open>t\<close> that is
  owned holds the value of \<open>coarsen_identify_kernel\<close> on the mesh after the collapse:
  the source re-evaluates at once and does not store the sentinel \<open>-2\<close>. The
  indices are assumed to be in the range of \<open>dynamic_vertex\<close>.
\<close>

theorem coarsen_kernel_reevaluates:
  assumes "coarsen_kernel c s rm t = Some s'"
    and "\<forall>w' \<in> set (t # NNList (mesh s') ! nat t). 0 \<le> w' \<and> nat w' < length (dynamic_vertex s)"
    and "w \<in> set (t # NNList (mesh s') ! nat t)"
    and "is_owned_node c (mesh s') w"
  shows "dynamic_vertex s' ! nat w
           = fst (coarsen_identify_kernel c s' w (stored_L_low s') (stored_L_max s'))"
proof -
  from coarsen_kernel_shape [OF assms(1)] obtain s1 where
    len: "length (dynamic_vertex s1) = length (dynamic_vertex s)" and
    s': "s' = fold (reevaluate c) (t # NNList (mesh s1) ! nat t) s1"
    by blast
  let ?ws = "t # NNList (mesh s1) ! nat t"
  have fr: "mesh s' = mesh s1" "surface s' = surface s1"
    "stored_L_low s' = stored_L_low s1" "stored_L_max s' = stored_L_max s1"
    using fold_reevaluate_frame [of c ?ws s1] by (simp_all add: s')
  have k: "fst (coarsen_identify_kernel c s' w (stored_L_low s') (stored_L_max s'))
             = fst (coarsen_identify_kernel c s1 w (stored_L_low s1) (stored_L_max s1))"
    unfolding fr(3,4) by (rule coarsen_identify_kernel_fst_cong) (simp_all add: fr)
  have "dynamic_vertex (fold (reevaluate c) ?ws s1) ! nat w
          = fst (coarsen_identify_kernel c s1 w (stored_L_low s1) (stored_L_max s1))"
    using assms(2-4) by (intro fold_reevaluate_nth) (auto simp: fr len)
  then have "dynamic_vertex s' ! nat w
          = fst (coarsen_identify_kernel c s1 w (stored_L_low s1) (stored_L_max s1))"
    by (simp only: s')
  with k show ?thesis by simp
qed

lemma strip_collapse_vertex:
  "collapse_vertex strip_collab strip_identified 1 2 = Some strip_collapsed"
  by (simp add: collapse_vertex_def strip_identified_def strip_collab_def strip_coarsen_def
      strip_mesh_def set_intersection_def erase_element_def get_element_def set_erase_def
      renumber_element_def get_node_patch_def erase_vertex_def Let_def strip_collapsed_def)

lemma strip_coarsen_kernel:
  "coarsen_kernel strip_collab strip_identified 1 2 = Some strip_collapsed"
  by (simp add: coarsen_kernel_def strip_collapse_vertex)
    (simp add: reevaluate_def strip_identified_def strip_collab_def strip_coarsen_def
      strip_mesh_def coarsen_identify_kernel_def strip_collapsed_def)

theorem coarsen_kernel_reevaluates_witness:
  "coarsen_kernel strip_collab strip_identified 1 2 = Some strip_collapsed
   \<and> list_all (\<lambda>w'. 0 \<le> w' \<and> nat w' < length (dynamic_vertex strip_identified))
        (2 # NNList (mesh strip_collapsed) ! nat 2)
   \<and> 0 \<in> set (2 # NNList (mesh strip_collapsed) ! nat 2)
   \<and> is_owned_node strip_collab (mesh strip_collapsed) 0
   \<and> dynamic_vertex strip_collapsed ! nat 0
        = fst (coarsen_identify_kernel strip_collab strip_collapsed 0
                 (stored_L_low strip_collapsed) (stored_L_max strip_collapsed))
   \<and> dynamic_vertex strip_collapsed ! nat 0 = -1"
proof -
  have a: "\<forall>w' \<in> set (2 # NNList (mesh strip_collapsed) ! nat 2).
             0 \<le> w' \<and> nat w' < length (dynamic_vertex strip_identified)"
    by (simp add: strip_identified_def strip_coarsen_def strip_collapsed_def)
  have b: "0 \<in> set (2 # NNList (mesh strip_collapsed) ! nat 2)"
    by (simp add: strip_collapsed_def)
  have c: "is_owned_node strip_collab (mesh strip_collapsed) 0"
    by (simp add: strip_collab_def)
  have d: "dynamic_vertex strip_collapsed ! nat 0 = -1"
    by (simp add: strip_collapsed_def)
  from coarsen_kernel_reevaluates [OF strip_coarsen_kernel a b c] a b c d
  show ?thesis
    by (simp add: strip_coarsen_kernel list_all_iff)
qed

text \<open>
  On the strip, after vertex \<open>1\<close> is collapsed onto \<open>2\<close>, the entry of the target \<open>2\<close>,
  a corner, is \<open>-1\<close>, not \<open>-2\<close>.
\<close>

theorem coarsen_kernel_reset_counterexample:
  "coarsen_kernel strip_collab strip_identified 1 2 = Some strip_collapsed
   \<and> is_owned_node strip_collab (mesh strip_collapsed) 2
   \<and> dynamic_vertex strip_collapsed ! nat 2 = -1
   \<and> dynamic_vertex strip_collapsed ! nat 2 \<noteq> -2"
  by (simp add: strip_coarsen_kernel) (simp add: strip_collapsed_def strip_collab_def)

section \<open>Refine2D\<close>

text \<open>
  One thread is modelled (\<open>nthreads = 1\<close>, \<open>tid = 0\<close>), so the per-thread buffers
  \<open>newVertices[tid]\<close>, \<open>newCoords[tid]\<close>, \<open>newMetric[tid]\<close> and \<open>splitCnt[tid]\<close> are
  single fields, and \<open>threadIdx[tid]\<close> is the number of nodes before the pass. A
  \<open>DirectedEdge\<close> is pushed without an id; the id is given when the new vertices are
  gathered in \<open>allNewVertices\<close>.
\<close>

record directed_edge =
  edge_first :: int
  edge_second :: int
  vertex_id :: int

record refine2d =
  rmesh :: mesh
  newVertices :: "(int \<times> int) list"
  newCoords :: "double list"
  newMetric :: "double list"
  splitCnt :: nat
  allNewVertices :: "directed_edge list"
  new_vertices_per_element :: "int list"

text \<open>
  \<open>refine_edge\<close> computes in doubles: the quotient of the two lengths, its square
  root and the weight follow IEEE 754, so that a length \<open>l(x0,x1,m1)\<close> of zero gives
  the weight \<open>0\<close> (or NaN when both lengths are zero) and the values pushed are what
  the arithmetic yields. The source prints a diagnostic when a metric component is
  NaN and carries on; the output stream is not part of the model.
\<close>

definition refine_edge :: "'surf collab \<Rightarrow> refine2d \<Rightarrow> int \<Rightarrow> int \<Rightarrow> refine2d" where
  "refine_edge c s n0 n1 =
     (case (if lnn2gnn (rmesh s) ! nat n0 > lnn2gnn (rmesh s) ! nat n1
            then (n1, n0) else (n0, n1)) of
        (a, b) \<Rightarrow>
          (let x0 = get_coords 2 (rmesh s) a; m0 = get_metric 3 (rmesh s) a;
               x1 = get_coords 2 (rmesh s) b; m1 = get_metric 3 (rmesh s) b;
               weight = ddiv (Num 1)
                          (dadd (Num 1)
                             (dsqrt (ddiv (property_length c x0 x1 m0)
                                       (property_length c x0 x1 m1))))
           in s\<lparr>newVertices := newVertices s @ [(a, b)],
                newCoords := newCoords s
                  @ map (\<lambda>i. dadd (x0 ! i) (dmul weight (dsub (x1 ! i) (x0 ! i)))) [0, 1],
                newMetric := newMetric s
                  @ map (\<lambda>i. dadd (m0 ! i) (dmul weight (dsub (m1 ! i) (m0 ! i)))) [0, 1, 2]\<rparr>))"



text \<open>\<open>std::vector::resize\<close> and a \<open>memcpy\<close> into a vector at an offset.\<close>

definition resize :: "nat \<Rightarrow> 'a \<Rightarrow> 'a list \<Rightarrow> 'a list" where
  "resize n d xs = take n xs @ replicate (n - length xs) d"

definition memcpy_at :: "nat \<Rightarrow> 'a list \<Rightarrow> 'a list \<Rightarrow> 'a list" where
  "memcpy_at off src xs = take off xs @ src @ drop (off + length src) xs"








text \<open>The strip before a refinement, and after the pass with \<open>L_max = 0.55\<close>.\<close>

definition strip_refine :: refine2d where
  "strip_refine = \<lparr>rmesh = strip_mesh, newVertices = [], newCoords = [], newMetric = [],
     splitCnt = 0, allNewVertices = [], new_vertices_per_element = []\<rparr>"


subsection \<open>The new vertex of an edge\<close>

text \<open>The operations on finite doubles are the operations on the numbers they stand for.\<close>

lemma ddiv_finite:
  assumes "is_finite a" "is_finite b" "real_of b \<noteq> 0"
  shows "is_finite (ddiv a b)" and "real_of (ddiv a b) = real_of a / real_of b"
  using assms by (cases a; cases b; auto simp: ddiv_def signed_zero_def)+

lemma dsqrt_finite:
  assumes "is_finite a" "0 \<le> real_of a"
  shows "is_finite (dsqrt a)" and "real_of (dsqrt a) = sqrt (real_of a)"
  using assms by (cases a; auto)+

lemma dadd_finite:
  assumes "is_finite a" "is_finite b"
  shows "is_finite (dadd a b)" and "real_of (dadd a b) = real_of a + real_of b"
  using assms by (cases a; cases b; auto simp: dadd_def signed_zero_def)+

lemma dneg_finite:
  assumes "is_finite a"
  shows "is_finite (dneg a)" and "real_of (dneg a) = - real_of a"
  using assms by (cases a; auto)+

lemma dsub_finite:
  assumes "is_finite a" "is_finite b"
  shows "is_finite (dsub a b)" and "real_of (dsub a b) = real_of a - real_of b"
  using assms by (simp_all add: dsub_def dadd_finite dneg_finite)

lemma dmul_finite:
  assumes "is_finite a" "is_finite b"
  shows "is_finite (dmul a b)" and "real_of (dmul a b) = real_of a * real_of b"
  using assms by (cases a; cases b; auto simp: dmul_def signed_zero_def)+

lemma weight_finite:
  assumes "is_finite l0" "is_finite l1" "0 \<le> real_of l0" "0 < real_of l1"
  shows "is_finite (ddiv (Num 1) (dadd (Num 1) (dsqrt (ddiv l0 l1))))"
    and "real_of (ddiv (Num 1) (dadd (Num 1) (dsqrt (ddiv l0 l1))))
           = 1 / (1 + sqrt (real_of l0 / real_of l1))"
proof -
  have q: "is_finite (ddiv l0 l1)" "real_of (ddiv l0 l1) = real_of l0 / real_of l1"
    using assms by (simp_all add: ddiv_finite)
  have nn: "0 \<le> real_of l0 / real_of l1" using assms by simp
  have r: "is_finite (dsqrt (ddiv l0 l1))"
    "real_of (dsqrt (ddiv l0 l1)) = sqrt (real_of l0 / real_of l1)"
    using q nn by (simp_all add: dsqrt_finite)
  have a: "is_finite (dadd (Num 1) (dsqrt (ddiv l0 l1)))"
    "real_of (dadd (Num 1) (dsqrt (ddiv l0 l1))) = 1 + sqrt (real_of l0 / real_of l1)"
    using r by (simp_all add: dadd_finite)
  have pos: "real_of (dadd (Num 1) (dsqrt (ddiv l0 l1))) \<noteq> 0"
    using nn a(2) by (smt (verit) real_sqrt_ge_zero)
  show "is_finite (ddiv (Num 1) (dadd (Num 1) (dsqrt (ddiv l0 l1))))"
    using a(1) pos by (simp add: ddiv_finite)
  show "real_of (ddiv (Num 1) (dadd (Num 1) (dsqrt (ddiv l0 l1))))
           = 1 / (1 + sqrt (real_of l0 / real_of l1))"
    using a pos by (simp add: ddiv_finite)
qed

lemma inverse_unit_interval:
  fixes d :: real
  assumes "1 \<le> d"
  shows "0 < 1 / d" and "1 / d \<le> 1"
  using assms by simp_all

lemma interpolate_finite:
  assumes "is_finite w" "is_finite p" "is_finite q"
  shows "is_finite (dadd p (dmul w (dsub q p)))
       \<and> real_of (dadd p (dmul w (dsub q p))) = real_of p + real_of w * (real_of q - real_of p)"
  using assms by (simp add: dadd_finite dmul_finite dsub_finite)

text \<open>
  Where the arithmetic leaves the numbers: a zero length \<open>l(x0,x1,m1)\<close> under a
  positive \<open>l(x0,x1,m0)\<close> gives the weight zero, and two zero lengths give NaN.
\<close>

lemma weight_degenerate:
  "0 < l0 \<Longrightarrow> ddiv (Num 1) (dadd (Num 1) (dsqrt (ddiv (Num l0) (Num 0)))) = Num 0"
  "ddiv (Num 1) (dadd (Num 1) (dsqrt (ddiv (Num 0) (Num 0)))) = NaN"
  by (simp_all add: ddiv_def dadd_def signed_inf_def signed_zero_def)

text \<open>
  Claim C4. \<open>refine_edge\<close> orders the endpoints so that the one with the lesser gnn
  comes first (\<open>x0\<close>, \<open>m0\<close>), records the edge in that order, leaves the mesh as it
  is, and appends two coordinates and three metric components. When the two metric
  lengths \<open>l0 = l(x0,x1,m0)\<close> and \<open>l1 = l(x0,x1,m1)\<close> are finite with \<open>0 \<le> l0\<close> and
  \<open>0 < l1\<close>, and the coordinates and metric components of the two endpoints are
  finite, the appended values are finite and are \<open>x0 + w (x1 - x0)\<close> and
  \<open>m0 + w (m1 - m0)\<close>, component by component, with
  \<open>w = 1 / (1 + sqrt (l0 / l1))\<close>, a weight in \<open>(0, 1]\<close>.
\<close>

theorem refine_edge_midpoint:
  "(let lo = (if lnn2gnn (rmesh s) ! nat n1 < lnn2gnn (rmesh s) ! nat n0 then n1 else n0);
        hi = (if lnn2gnn (rmesh s) ! nat n1 < lnn2gnn (rmesh s) ! nat n0 then n0 else n1);
        x0 = get_coords 2 (rmesh s) lo; x1 = get_coords 2 (rmesh s) hi;
        m0 = get_metric 3 (rmesh s) lo; m1 = get_metric 3 (rmesh s) hi;
        l0 = property_length c x0 x1 m0; l1 = property_length c x0 x1 m1;
        w = 1 / (1 + sqrt (real_of l0 / real_of l1));
        s' = refine_edge c s n0 n1
    in newVertices s' = newVertices s @ [(lo, hi)]
       \<and> lnn2gnn (rmesh s) ! nat lo \<le> lnn2gnn (rmesh s) ! nat hi
       \<and> rmesh s' = rmesh s
       \<and> take (length (newCoords s)) (newCoords s') = newCoords s
       \<and> length (newCoords s') = length (newCoords s) + 2
       \<and> take (length (newMetric s)) (newMetric s') = newMetric s
       \<and> length (newMetric s') = length (newMetric s) + 3
       \<and> (is_finite l0 \<and> is_finite l1 \<and> 0 \<le> real_of l0 \<and> 0 < real_of l1
            \<and> (\<forall>i<2. is_finite (x0 ! i) \<and> is_finite (x1 ! i))
            \<and> (\<forall>i<3. is_finite (m0 ! i) \<and> is_finite (m1 ! i)) \<longrightarrow>
          0 < w \<and> w \<le> 1
          \<and> (\<forall>i<2. is_finite (newCoords s' ! (length (newCoords s) + i))
                \<and> real_of (newCoords s' ! (length (newCoords s) + i))
                    = real_of (x0 ! i) + w * (real_of (x1 ! i) - real_of (x0 ! i)))
          \<and> (\<forall>i<3. is_finite (newMetric s' ! (length (newMetric s) + i))
                \<and> real_of (newMetric s' ! (length (newMetric s) + i))
                    = real_of (m0 ! i) + w * (real_of (m1 ! i) - real_of (m0 ! i)))))"
proof -
  define lo where "lo = (if lnn2gnn (rmesh s) ! nat n1 < lnn2gnn (rmesh s) ! nat n0 then n1 else n0)"
  define hi where "hi = (if lnn2gnn (rmesh s) ! nat n1 < lnn2gnn (rmesh s) ! nat n0 then n0 else n1)"
  define x0 where "x0 = get_coords 2 (rmesh s) lo"
  define x1 where "x1 = get_coords 2 (rmesh s) hi"
  define m0 where "m0 = get_metric 3 (rmesh s) lo"
  define m1 where "m1 = get_metric 3 (rmesh s) hi"
  define l0 where "l0 = property_length c x0 x1 m0"
  define l1 where "l1 = property_length c x0 x1 m1"
  define wd where "wd = ddiv (Num 1) (dadd (Num 1) (dsqrt (ddiv l0 l1)))"
  define w where "w = 1 / (1 + sqrt (real_of l0 / real_of l1))"
  define s' where "s' = refine_edge c s n0 n1"
  have e: "s' = s\<lparr>newVertices := newVertices s @ [(lo, hi)],
                newCoords := newCoords s
                  @ map (\<lambda>i. dadd (x0 ! i) (dmul wd (dsub (x1 ! i) (x0 ! i)))) [0, 1],
                newMetric := newMetric s
                  @ map (\<lambda>i. dadd (m0 ! i) (dmul wd (dsub (m1 ! i) (m0 ! i)))) [0, 1, 2]\<rparr>"
    by (simp add: s'_def refine_edge_def Let_def lo_def hi_def x0_def x1_def m0_def m1_def
        l0_def l1_def wd_def)
  have c: "newCoords s' ! (length (newCoords s) + i)
             = dadd (x0 ! i) (dmul wd (dsub (x1 ! i) (x0 ! i)))" if "i < 2" for i
    using that by (auto simp: e nth_append less_Suc_eq numeral_2_eq_2)
  have m: "newMetric s' ! (length (newMetric s) + i)
             = dadd (m0 ! i) (dmul wd (dsub (m1 ! i) (m0 ! i)))" if "i < 3" for i
    using that by (auto simp: e nth_append less_Suc_eq numeral_3_eq_3 numeral_2_eq_2)
  have main: "0 < w \<and> w \<le> 1
          \<and> (\<forall>i<2. is_finite (newCoords s' ! (length (newCoords s) + i))
                \<and> real_of (newCoords s' ! (length (newCoords s) + i))
                    = real_of (x0 ! i) + w * (real_of (x1 ! i) - real_of (x0 ! i)))
          \<and> (\<forall>i<3. is_finite (newMetric s' ! (length (newMetric s) + i))
                \<and> real_of (newMetric s' ! (length (newMetric s) + i))
                    = real_of (m0 ! i) + w * (real_of (m1 ! i) - real_of (m0 ! i)))"
    if h: "is_finite l0" "is_finite l1" "0 \<le> real_of l0" "0 < real_of l1"
      and fx: "\<forall>i<2. is_finite (x0 ! i) \<and> is_finite (x1 ! i)"
      and fm: "\<forall>i<3. is_finite (m0 ! i) \<and> is_finite (m1 ! i)"
  proof -
    have wf: "is_finite wd" "real_of wd = w"
      unfolding wd_def w_def using h by (rule weight_finite)+
    have nn: "0 \<le> sqrt (real_of l0 / real_of l1)" using h by simp
    then have d: "1 \<le> 1 + sqrt (real_of l0 / real_of l1)" by simp
    have w01: "0 < w" "w \<le> 1"
      unfolding w_def using inverse_unit_interval [OF d] by simp_all
    have cx: "is_finite (newCoords s' ! (length (newCoords s) + i))
                \<and> real_of (newCoords s' ! (length (newCoords s) + i))
                    = real_of (x0 ! i) + w * (real_of (x1 ! i) - real_of (x0 ! i))"
      if "i < 2" for i
      using interpolate_finite [OF wf(1), of "x0 ! i" "x1 ! i"] fx that
      by (simp add: c wf(2))
    have cm: "is_finite (newMetric s' ! (length (newMetric s) + i))
                \<and> real_of (newMetric s' ! (length (newMetric s) + i))
                    = real_of (m0 ! i) + w * (real_of (m1 ! i) - real_of (m0 ! i))"
      if "i < 3" for i
      using interpolate_finite [OF wf(1), of "m0 ! i" "m1 ! i"] fm that
      by (simp add: m wf(2))
    from w01 cx cm show ?thesis by blast
  qed
  have frame: "newVertices s' = newVertices s @ [(lo, hi)]"
    "lnn2gnn (rmesh s) ! nat lo \<le> lnn2gnn (rmesh s) ! nat hi"
    "rmesh s' = rmesh s"
    "take (length (newCoords s)) (newCoords s') = newCoords s"
    "length (newCoords s') = length (newCoords s) + 2"
    "take (length (newMetric s)) (newMetric s') = newMetric s"
    "length (newMetric s') = length (newMetric s) + 3"
    by (simp_all add: e lo_def hi_def)
  from frame main show ?thesis
    unfolding Let_def lo_def [symmetric] hi_def [symmetric] x0_def [symmetric]
      x1_def [symmetric] m0_def [symmetric] m1_def [symmetric] l0_def [symmetric]
      l1_def [symmetric] w_def [symmetric] s'_def [symmetric]
    by blast
qed

text \<open>
  The edge \<open>(1, 0)\<close> of the strip, given from its greater endpoint: both lengths are
  \<open>1\<close>, the weight is \<open>1/2\<close> and the new vertex is the midpoint \<open>(1/2, 0)\<close> of
  \<open>(0, 0)\<close> and \<open>(1, 0)\<close>.
\<close>

theorem refine_edge_midpoint_witness:
  "is_finite (property_length strip_collab (get_coords 2 strip_mesh 0) (get_coords 2 strip_mesh 1)
       (get_metric 3 strip_mesh 0))
   \<and> 0 < real_of (property_length strip_collab (get_coords 2 strip_mesh 0)
       (get_coords 2 strip_mesh 1) (get_metric 3 strip_mesh 1))
   \<and> is_finite (property_length strip_collab (get_coords 2 strip_mesh 0)
       (get_coords 2 strip_mesh 1) (get_metric 3 strip_mesh 1))
   \<and> 0 \<le> real_of (property_length strip_collab (get_coords 2 strip_mesh 0)
       (get_coords 2 strip_mesh 1) (get_metric 3 strip_mesh 0))
   \<and> list_all is_finite (get_coords 2 strip_mesh 0 @ get_coords 2 strip_mesh 1
        @ get_metric 3 strip_mesh 0 @ get_metric 3 strip_mesh 1)
   \<and> newVertices (refine_edge strip_collab strip_refine 1 0) = [(0, 1)]
   \<and> real_of (newCoords (refine_edge strip_collab strip_refine 1 0) ! 0) = 1 / 2
   \<and> real_of (newCoords (refine_edge strip_collab strip_refine 1 0) ! 1) = 0
   \<and> real_of (newMetric (refine_edge strip_collab strip_refine 1 0) ! 0) = 1
   \<and> newCoords (refine_edge strip_collab strip_refine 1 0) = [Num (1 / 2), Num 0]"
  using refine_edge_midpoint [of strip_refine 0 1 strip_collab]
  by (simp add: Let_def strip_refine_def strip_mesh_def strip_collab_def get_coords_def
      get_metric_def refine_edge_def ddiv_def dadd_def dsub_def dmul_def signed_zero_def
      numeral_2_eq_2 numeral_3_eq_3 less_Suc_eq)








lemma count_list_map_Pair_other:
  "count_list (map (Pair (int i)) os) (b, a) = (if int i = b then count_list os a else 0)"
  by (induction os) auto











subsection \<open>Every long edge is split once\<close>








section \<open>Swapping in 2D\<close>

text \<open>
  The state of the 2D branch of \<open>Swapping::swap\<close>: the mesh (whose \<open>NNList\<close> rows are
  stretched to three times the vertex degree, with \<open>-1\<close> in the free slots), the
  quality cache, the marks, the degrees at the start of the current round, and the
  local vector copy of the node-element lists (twice the degree, \<open>-1\<close> free). The
  loops are run by one thread, in index order.
\<close>

record swap2d =
  smesh :: mesh
  quality :: "real list"
  marked_edges :: "nat list list"
  originalVertexDegree :: "nat list"
  swNEList :: "int list list"
  n_marked_edges :: nat

fun find_pos :: "int \<Rightarrow> int list \<Rightarrow> nat option" where
  "find_pos x [] = None"
| "find_pos x (y # ys) = (if y = x then Some 0 else map_option Suc (find_pos x ys))"

text \<open>
  \<open>originalNeighborIndex\<close>: the position of \<open>target\<close> among the first
  \<open>originalVertexDegree[source]\<close> entries of \<open>NNList[source]\<close>, or the largest
  \<open>index_t\<close> when it is not there.
\<close>

definition neighbor_index :: "nat list \<Rightarrow> int list list \<Rightarrow> int \<Rightarrow> int \<Rightarrow> int" where
  "neighbor_index deg nn source target =
     (case find_pos target (take (deg ! nat source) (nn ! nat source)) of
        Some pos \<Rightarrow> int pos
      | None \<Rightarrow> 2147483647)"

definition originalNeighborIndex :: "swap2d \<Rightarrow> int \<Rightarrow> int \<Rightarrow> int" where
  "originalNeighborIndex s source target =
     neighbor_index (originalVertexDegree s) (NNList (smesh s)) source target"

datatype edge_outcome =
  NotMarked | HaloOpposite | NotInterior | Stale | Deferred | Rejected | Flipped | AssertFailed

record flip_locals =
  opposite :: int
  eid0 :: int
  eid1 :: int
  elem_n :: "int list"
  elem_m :: "int list"
  n_off :: nat
  m_off :: nat

definition lateral_n :: "flip_locals \<Rightarrow> int" where
  "lateral_n l = elem_n l ! n_off l"

definition lateral_m :: "flip_locals \<Rightarrow> int" where
  "lateral_m l = elem_m l ! m_off l"

definition neigh_elements_of :: "swap2d \<Rightarrow> int \<Rightarrow> int \<Rightarrow> int list" where
  "neigh_elements_of s i opp =
     (let a = swNEList s ! nat i; b = swNEList s ! nat opp
      in concat (map (\<lambda>e. if e \<noteq> -1
                            then map (\<lambda>e'. e) (filter (\<lambda>e'. e = e') (take (length b div 2) b))
                            else [])
                   (take (length a div 2) a)))"

fun first_off :: "int list \<Rightarrow> int \<Rightarrow> int \<Rightarrow> nat list \<Rightarrow> nat option" where
  "first_off n i opp [] = None"
| "first_off n i opp (k # ks) =
     (if n ! k \<noteq> i \<and> n ! k \<noteq> opp then Some k else first_off n i opp ks)"

text \<open>
  From the mark test to the stale-view test: either the reason why the edge is left,
  or the two elements around it and the offsets of their apex vertices.
\<close>

definition find_flip ::
  "'surf collab \<Rightarrow> swap2d \<Rightarrow> nat \<Rightarrow> nat \<Rightarrow> edge_outcome + flip_locals" where
  "find_flip c s i it =
     (if marked_edges s ! i ! it \<noteq> 1 then Inl NotMarked
      else
        (let opp = NNList (smesh s) ! i ! it
         in if is_halo_node c (smesh s) opp then Inl HaloOpposite
            else
              (let neigh_elements = neigh_elements_of s (int i) opp
               in if length neigh_elements \<noteq> 2 then Inl NotInterior
                  else
                    (let e0 = hd neigh_elements; e1 = last neigh_elements;
                         n = get_element 3 (smesh s) e0; m = get_element 3 (smesh s) e1
                     in case (first_off n (int i) opp [0, 1, 2],
                              first_off m (int i) opp [0, 1, 2]) of
                          (Some no, Some mo) \<Rightarrow>
                            if n ! ((no + 2) mod 3) \<noteq> m ! ((mo + 1) mod 3)
                               \<or> n ! ((no + 1) mod 3) \<noteq> m ! ((mo + 2) mod 3)
                            then Inl Stale
                            else Inr \<lparr>opposite = opp, eid0 = e0, eid1 = e1, elem_n = n,
                                      elem_m = m, n_off = no, m_off = mo\<rparr>
                        | _ \<Rightarrow> Inl Stale))))"

text \<open>
  The first decision block for one lateral vertex, entered when \<open>i > lateral\<close>: the
  result is \<open>(idx_in, min_opp, idx_opp)\<close>, all \<open>-1\<close> when the block is not entered,
  and \<open>None\<close> on \<open>continue\<close>.
\<close>

definition marked_block :: "swap2d \<Rightarrow> int \<Rightarrow> int \<Rightarrow> int \<Rightarrow> (int \<times> int \<times> int) option" where
  "marked_block s i opp lateral =
     (if i > lateral
      then
        (let idx_in = originalNeighborIndex s lateral i
         in if idx_in \<ge> int (originalVertexDegree s ! nat lateral) then None
            else if marked_edges s ! nat lateral ! nat idx_in = 1 then None
            else
              (let min_opp = (if opp < lateral then opp else lateral);
                   max_opp = (if opp < lateral then lateral else opp);
                   idx_opp = originalNeighborIndex s min_opp max_opp
               in if idx_opp \<ge> int (originalVertexDegree s ! nat min_opp) then None
                  else if marked_edges s ! nat min_opp ! nat idx_opp = 1 then None
                  else Some (idx_in, min_opp, idx_opp)))
      else Some (-1, -1, -1))"

text \<open>
  The second group of blocks for one lateral vertex: the checks that were not made
  in the first block. The result is \<open>(idx_of, min_opp, idx_opp)\<close>.
\<close>

definition original_block ::
  "swap2d \<Rightarrow> int \<Rightarrow> int \<Rightarrow> int \<Rightarrow> int \<times> int \<times> int \<Rightarrow> (int \<times> int \<times> int) option" where
  "original_block s i opp lateral b =
     (case b of (idx_in, min_opp0, idx_opp0) \<Rightarrow>
        (let idx_of = (if idx_in = -1 then originalNeighborIndex s i lateral else -1)
         in if idx_in = -1 \<and> idx_of \<ge> int (originalVertexDegree s ! nat i) then None
            else if idx_opp0 = -1
            then
              (let min_opp = (if opp < lateral then opp else lateral);
                   max_opp = (if opp < lateral then lateral else opp);
                   idx_opp = originalNeighborIndex s min_opp max_opp
               in if idx_opp \<ge> int (originalVertexDegree s ! nat min_opp) then None
                  else Some (idx_of, min_opp, idx_opp))
            else Some (idx_of, min_opp0, idx_opp0)))"

record flip_indices =
  idx_in_n :: int
  idx_in_m :: int
  idx_of_n :: int
  idx_of_m :: int
  min_opp_n :: int
  idx_opp_n :: int
  min_opp_m :: int
  idx_opp_m :: int

text \<open>
  The decision algorithm, in the order of the source: the marked-edge block of
  \<open>lateral_n\<close>, that of \<open>lateral_m\<close>, then the remaining checks for \<open>idx_of_n\<close>,
  \<open>idx_of_m\<close>, \<open>idx_opp_n\<close>, \<open>idx_opp_m\<close>. Every check is a read, so the order within
  the last group does not matter.
\<close>

definition lateral_decision :: "swap2d \<Rightarrow> int \<Rightarrow> flip_locals \<Rightarrow> flip_indices option" where
  "lateral_decision s i l =
     (case marked_block s i (opposite l) (lateral_n l) of
        None \<Rightarrow> None
      | Some bn \<Rightarrow>
          (case marked_block s i (opposite l) (lateral_m l) of
             None \<Rightarrow> None
           | Some bm \<Rightarrow>
               (case (original_block s i (opposite l) (lateral_n l) bn,
                      original_block s i (opposite l) (lateral_m l) bm) of
                  (Some (ofn, mon, ion), Some (ofm, mom, iom)) \<Rightarrow>
                    Some \<lparr>idx_in_n = fst bn, idx_in_m = fst bm, idx_of_n = ofn,
                          idx_of_m = ofm, min_opp_n = mon, idx_opp_n = ion,
                          min_opp_m = mom, idx_opp_m = iom\<rparr>
                | _ \<Rightarrow> None)))"

text \<open>The pieces of the commit; \<open>None\<close> is a failed \<open>assert\<close>.\<close>

definition add_lateral ::
  "nat list \<Rightarrow> int list list \<Rightarrow> int \<Rightarrow> int \<Rightarrow> int \<Rightarrow> int list list option" where
  "add_lateral deg nn lateral idx_in other =
     (let d = int (deg ! nat lateral);
          pos0 = d + idx_in;
          pos = (if nn ! nat lateral ! nat pos0 \<noteq> -1 then pos0 + d else pos0)
      in if nn ! nat lateral ! nat pos \<noteq> -1 then None
         else Some (nn[nat lateral := (nn ! nat lateral)[nat pos := other]]))"

definition ne_add :: "int list list \<Rightarrow> int \<Rightarrow> int \<Rightarrow> int \<Rightarrow> int list list option" where
  "ne_add ne vertex present added =
     (let l = ne ! nat vertex; halfSize = length l div 2
      in case find_pos present (take halfSize l) of
           None \<Rightarrow> None
         | Some p \<Rightarrow>
             if l ! (p + halfSize) \<noteq> -1 then None
             else Some (ne[nat vertex := l[p + halfSize := added]]))"

definition ne_remove :: "int list list \<Rightarrow> int \<Rightarrow> int \<Rightarrow> int list list option" where
  "ne_remove ne vertex e =
     (let l = ne ! nat vertex; halfSize = length l div 2
      in case find_pos e (take halfSize l) of
           None \<Rightarrow> None
         | Some p \<Rightarrow> Some (ne[nat vertex := l[p := -1]]))"

definition set_mark :: "nat list list \<Rightarrow> int \<Rightarrow> int \<Rightarrow> nat \<Rightarrow> nat list list" where
  "set_mark marks v idx x = marks[nat v := (marks ! nat v)[nat idx := x]]"

definition n_swap :: "flip_locals \<Rightarrow> int list" where
  "n_swap l = [elem_n l ! n_off l, elem_m l ! m_off l, elem_n l ! ((n_off l + 2) mod 3)]"

definition m_swap :: "flip_locals \<Rightarrow> int list" where
  "m_swap l = [elem_n l ! n_off l, elem_n l ! ((n_off l + 1) mod 3), elem_m l ! m_off l]"

text \<open>
  The body of \<open>if(new_worst_q>worst_q)\<close>: the quality cache, the four node-node
  lists, the four node-element lists, the two elements, and the four new marks.
\<close>

definition commit_flip ::
  "swap2d \<Rightarrow> nat \<Rightarrow> nat \<Rightarrow> flip_locals \<Rightarrow> flip_indices \<Rightarrow> real \<Rightarrow> real \<Rightarrow> swap2d option" where
  "commit_flip s i it l d q0 q1 =
     (let deg = originalVertexDegree s;
          ln = lateral_n l; lm = lateral_m l; opp = opposite l;
          q = (quality s)[nat (eid0 l) := q0, nat (eid1 l) := q1];
          nn1 = (NNList (smesh s))[i := (NNList (smesh s) ! i)[it := -1]];
          nn2 = nn1[nat opp := (nn1 ! nat opp)[nat (neighbor_index deg nn1 opp (int i)) := -1]];
          in_n = (if idx_in_n d = -1 then neighbor_index deg nn2 ln (int i) else idx_in_n d)
      in case add_lateral deg nn2 ln in_n lm of
           None \<Rightarrow> None
         | Some nn3 \<Rightarrow>
             (let in_m = (if idx_in_m d = -1 then neighbor_index deg nn3 lm (int i)
                          else idx_in_m d)
              in case add_lateral deg nn3 lm in_m ln of
                   None \<Rightarrow> None
                 | Some nn4 \<Rightarrow>
                     (case ne_add (swNEList s) (n_swap l ! 0) (eid0 l) (eid1 l) of
                        None \<Rightarrow> None
                      | Some ne1 \<Rightarrow>
                     (case ne_add ne1 (n_swap l ! 1) (eid1 l) (eid0 l) of
                        None \<Rightarrow> None
                      | Some ne2 \<Rightarrow>
                     (case ne_remove ne2 (n_swap l ! 2) (eid1 l) of
                        None \<Rightarrow> None
                      | Some ne3 \<Rightarrow>
                     (case ne_remove ne3 (m_swap l ! 1) (eid0 l) of
                        None \<Rightarrow> None
                      | Some ne4 \<Rightarrow>
                          (let en = fold (\<lambda>k e. e[nat (eid0 l) * 3 + k := n_swap l ! k,
                                                  nat (eid1 l) * 3 + k := m_swap l ! k])
                                      [0, 1, 2] (ENList (smesh s));
                               mk1 = (if int i < ln
                                      then set_mark (marked_edges s) (int i) (idx_of_n d) 1
                                      else set_mark (marked_edges s) ln in_n 1);
                               mk2 = (if int i < lm
                                      then set_mark mk1 (int i) (idx_of_m d) 1
                                      else set_mark mk1 lm in_m 1);
                               mk3 = set_mark mk2 (min_opp_n d) (idx_opp_n d) 1;
                               mk4 = set_mark mk3 (min_opp_m d) (idx_opp_m d) 1
                           in Some (s\<lparr>smesh := (smesh s)\<lparr>NNList := nn4, ENList := en\<rparr>,
                                      quality := q, marked_edges := mk4,
                                      swNEList := ne4\<rparr>))))))))"

definition clear_mark :: "swap2d \<Rightarrow> nat \<Rightarrow> nat \<Rightarrow> swap2d" where
  "clear_mark s i it =
     s\<lparr>marked_edges := (marked_edges s)[i := (marked_edges s ! i)[it := 0]]\<rparr>"

text \<open>
  The body of the loop over the positions \<open>it\<close> of vertex \<open>i\<close>. An edge left by
  \<open>continue\<close> in the stale-view test or in the decision blocks keeps its mark.
\<close>

definition process_edge ::
  "'surf collab \<Rightarrow> swap2d \<Rightarrow> nat \<Rightarrow> nat \<Rightarrow> edge_outcome \<times> swap2d" where
  "process_edge c s i it =
     (case find_flip c s i it of
        Inl out \<Rightarrow>
          (out, if out = HaloOpposite \<or> out = NotInterior then clear_mark s i it else s)
      | Inr l \<Rightarrow>
          (case lateral_decision s (int i) l of
             None \<Rightarrow> (Deferred, s)
           | Some d \<Rightarrow>
               (let worst_q = min (quality s ! nat (eid0 l)) (quality s ! nat (eid1 l));
                    q0 = lipnikov c (smesh s) (n_swap l);
                    q1 = lipnikov c (smesh s) (m_swap l);
                    new_worst_q = min q0 q1
                in if new_worst_q > worst_q
                   then (case commit_flip s i it l d q0 q1 of
                           None \<Rightarrow> (AssertFailed, s)
                         | Some s' \<Rightarrow> (Flipped, clear_mark s' i it))
                   else (Rejected, clear_mark s i it))))"

fun process_edges :: "'surf collab \<Rightarrow> nat \<Rightarrow> nat list \<Rightarrow> swap2d \<Rightarrow> swap2d option" where
  "process_edges c i [] s = Some s"
| "process_edges c i (it # its) s =
     (case process_edge c s i it of
        (AssertFailed, s') \<Rightarrow> None
      | (out, s') \<Rightarrow> process_edges c i its s')"

definition process_vertex :: "'surf collab \<Rightarrow> nat \<Rightarrow> swap2d \<Rightarrow> swap2d option" where
  "process_vertex c i s =
     (if is_halo_node c (smesh s) (int i)
      then Some (s\<lparr>marked_edges :=
                     (marked_edges s)[i := map (\<lambda>x. 0) (marked_edges s ! i)]\<rparr>)
      else process_edges c i [0..<originalVertexDegree s ! i] s)"

fun process_vertices :: "'surf collab \<Rightarrow> nat list \<Rightarrow> swap2d \<Rightarrow> swap2d option" where
  "process_vertices c [] s = Some s"
| "process_vertices c (i # is) s =
     (case process_vertex c i s of None \<Rightarrow> None | Some s' \<Rightarrow> process_vertices c is s')"

text \<open>
  The compaction at the end of a round. The two unguarded scans of the \<open>NNList\<close> loop
  run out of the vector when no free slot follows, or no used slot precedes; that is
  undefined behaviour in the source and \<open>None\<close> here. The scans of the \<open>NEList\<close> loop
  are guarded by \<open>forward > backward\<close>, with \<open>backward\<close> a \<open>size_t\<close>. After that loop
  the source reads \<open>NEList[i][forward]\<close> once more; when the row has no \<open>-1\<close> left,
  \<open>forward\<close> is the size of the row and the read falls one position past its end.
  The code carries on with whatever it finds there, and so does the model, which
  takes the value from the parameter \<open>past_the_end\<close>.
\<close>

definition scan_forward :: "int list \<Rightarrow> nat \<Rightarrow> nat option" where
  "scan_forward xs f =
     (let k = length (takeWhile (\<lambda>x. x \<noteq> -1) (drop f xs))
      in if f + k < length xs then Some (f + k) else None)"

definition scan_backward :: "int list \<Rightarrow> nat \<Rightarrow> nat option" where
  "scan_backward xs b =
     (let ys = dropWhile (\<lambda>x. x = -1) (rev (take (Suc b) xs))
      in if ys = [] then None else Some (length ys - 1))"

lemma scan_forward_ge: "scan_forward xs f = Some f' \<Longrightarrow> f \<le> f'"
  by (auto simp: scan_forward_def Let_def split: if_splits)

lemma scan_backward_le: "scan_backward xs b = Some b' \<Longrightarrow> b' \<le> b"
proof -
  assume a: "scan_backward xs b = Some b'"
  have "length (dropWhile (\<lambda>x. x = -1) (rev (take (Suc b) xs))) \<le> Suc b"
    by (rule order_trans [OF length_dropWhile_le]) simp
  with a show ?thesis
    by (auto simp: scan_backward_def Let_def split: if_splits)
qed

function nn_compact ::
  "int list \<Rightarrow> nat list \<Rightarrow> nat \<Rightarrow> nat \<Rightarrow> nat \<Rightarrow> (int list \<times> nat list \<times> nat) option" where
  "nn_compact xs ms deg forward backward =
     (if forward < backward
      then (case scan_forward xs forward of
              None \<Rightarrow> None
            | Some f \<Rightarrow>
                (case scan_backward xs backward of
                   None \<Rightarrow> None
                 | Some b \<Rightarrow>
                     if f < b
                     then nn_compact (xs[f := xs ! b, b := -1])
                            (if b < deg then ms[f := ms ! b] else ms) deg (f + 1) (b - 1)
                     else Some (xs, ms, f)))
      else Some (xs, ms, forward))"
  by pat_completeness auto
termination
  by (relation "measure (\<lambda>(xs, ms, deg, f, b). b - f)")
     (auto dest!: scan_forward_ge scan_backward_le)

declare nn_compact.simps [simp del]

definition scan_forward_guarded :: "int list \<Rightarrow> nat \<Rightarrow> nat \<Rightarrow> nat" where
  "scan_forward_guarded xs f b =
     f + length (takeWhile (\<lambda>x. x \<noteq> -1) (take (Suc b - f) (drop f xs)))"

fun scan_backward_guarded :: "int list \<Rightarrow> nat \<Rightarrow> nat \<Rightarrow> nat option" where
  "scan_backward_guarded xs f 0 = (if xs ! 0 = -1 then None else Some 0)"
| "scan_backward_guarded xs f (Suc b) =
     (if xs ! Suc b = -1
      then (if f > b then Some b else scan_backward_guarded xs f b)
      else Some (Suc b))"

lemma scan_forward_guarded_ge: "f \<le> scan_forward_guarded xs f b"
  by (simp add: scan_forward_guarded_def)

lemma scan_backward_guarded_le: "scan_backward_guarded xs f b = Some b' \<Longrightarrow> b' \<le> b"
  by (induction b) (auto split: if_splits)

function ne_compact :: "int list \<Rightarrow> nat \<Rightarrow> nat \<Rightarrow> (int list \<times> nat) option" where
  "ne_compact xs forward backward =
     (if forward < backward
      then (let f = scan_forward_guarded xs forward backward
            in case scan_backward_guarded xs f backward of
                 None \<Rightarrow> None
               | Some b \<Rightarrow>
                   if f < b then ne_compact (xs[f := xs ! b, b := -1]) (f + 1) (b - 1)
                   else Some (xs, f))
      else Some (xs, forward))"
  by pat_completeness auto
termination
proof (relation "measure (\<lambda>(xs, f, b). b - f)")
  show "wf (measure (\<lambda>(xs, f, b). b - f))" by simp
next
  fix xs :: "int list" and forward backward f b :: nat
  assume "forward < backward" "f = scan_forward_guarded xs forward backward"
    "scan_backward_guarded xs f backward = Some b" "f < b"
  moreover from this have "forward \<le> f" "b \<le> backward"
    by (auto simp: scan_forward_guarded_ge dest: scan_backward_guarded_le)
  ultimately show "((xs[f := xs ! b, b := -1], f + 1, b - 1), xs, forward, backward)
           \<in> measure (\<lambda>(xs, f, b). b - f)"
    by simp
qed


declare ne_compact.simps [simp del]

definition compact_vertex ::
  "'surf collab \<Rightarrow> nat \<Rightarrow> nat \<Rightarrow> nat \<Rightarrow> swap2d \<Rightarrow> swap2d option" where
  "compact_vertex c NNextend NEextend i s =
     (let xs = NNList (smesh s) ! i; es = swNEList s ! i
      in if xs = [] then Some s
         else
           (case nn_compact xs (marked_edges s ! i) (originalVertexDegree s ! i) 0
                   (length xs - 1) of
              None \<Rightarrow> None
            | Some (xs', ms', f) \<Rightarrow>
                if es = [] then None
                else
                  (case ne_compact es 0 (length es - 1) of
                     None \<Rightarrow> None
                   | Some (es', g) \<Rightarrow>
                       (let forward = (if xs' ! f \<noteq> -1 then f + 1 else f);
                            last_read = (if g < length es' then es' ! g
                                         else past_the_end c i es');
                            forward_ne = (if last_read \<noteq> -1 then g + 1 else g)
                        in Some (s\<lparr>smesh := (smesh s)\<lparr>NNList := (NNList (smesh s))
                                       [i := resize (NNextend * forward) (-1) xs']\<rparr>,
                                   marked_edges := (marked_edges s)[i := resize forward 0 ms'],
                                   originalVertexDegree :=
                                     (originalVertexDegree s)[i := forward],
                                   swNEList := (swNEList s)
                                       [i := resize (NEextend * forward_ne) (-1) es']\<rparr>)))))"

fun compact_vertices ::
  "'surf collab \<Rightarrow> nat \<Rightarrow> nat \<Rightarrow> nat list \<Rightarrow> swap2d \<Rightarrow> swap2d option" where
  "compact_vertices c NNextend NEextend [] s = Some s"
| "compact_vertices c NNextend NEextend (i # is) s =
     (case compact_vertex c NNextend NEextend i s of
        None \<Rightarrow> None
      | Some s' \<Rightarrow> compact_vertices c NNextend NEextend is s')"

definition count_marks :: "swap2d \<Rightarrow> nat" where
  "count_marks s = sum_list (map (\<lambda>ms. length (filter (\<lambda>x. x = 1) ms)) (marked_edges s))"

text \<open>One round of the \<open>while(n_marked_edges > 0)\<close> loop, and at most \<open>k\<close> rounds.\<close>

definition swap2d_round :: "'surf collab \<Rightarrow> swap2d \<Rightarrow> swap2d option" where
  "swap2d_round c s =
     (case process_vertices c [0..<length (NNList (smesh s))] s of
        None \<Rightarrow> None
      | Some s1 \<Rightarrow>
          (let n = count_marks s1
           in map_option (\<lambda>s2. s2\<lparr>n_marked_edges := n\<rparr>)
                (compact_vertices c (if n > 0 then 3 else 1) (if n > 0 then 2 else 1)
                   [0..<length (NNList (smesh s1))] s1)))"

fun swap2d_rounds :: "'surf collab \<Rightarrow> nat \<Rightarrow> swap2d \<Rightarrow> swap2d option" where
  "swap2d_rounds c 0 s = Some s"
| "swap2d_rounds c (Suc k) s =
     (if n_marked_edges s > 0
      then (case swap2d_round c s of None \<Rightarrow> None | Some s' \<Rightarrow> swap2d_rounds c k s')
      else Some s)"

text \<open>
  The set-up before the loop: the quality cache (\<open>0\<close> for an erased element), the
  stretched lists and the first marks, one for every edge seen from its lesser
  endpoint.
\<close>

definition cache_quality :: "'surf collab \<Rightarrow> nat \<Rightarrow> mesh \<Rightarrow> real list" where
  "cache_quality c nloc m =
     map (\<lambda>i. let n = get_element nloc m (int i) in if n ! 0 < 0 then 0 else lipnikov c m n)
       [0..<NElements m]"

definition swap2d_init :: "'surf collab \<Rightarrow> mesh \<Rightarrow> swap2d" where
  "swap2d_init c m =
     (let marks = map (\<lambda>i. map (\<lambda>x. if int i < x then 1 else 0) (NNList m ! i))
                    [0..<length (NNList m)]
      in \<lparr>smesh = m\<lparr>NNList := map (\<lambda>l. resize (3 * length l) (-1) l) (NNList m)\<rparr>,
          quality = cache_quality c 3 m,
          marked_edges = marks,
          originalVertexDegree = map length (NNList m),
          swNEList = map (\<lambda>i. if NNList m ! i = [] then []
                               else memcpy_at 0 (NEList m ! i)
                                      (replicate (2 * length (NNList m ! i)) (-1)))
                       [0..<length (NEList m)],
          n_marked_edges = sum_list (map (\<lambda>ms. length (filter (\<lambda>x. x = 1) ms)) marks)\<rparr>)"

definition swap2d_finish :: "swap2d \<Rightarrow> mesh" where
  "swap2d_finish s =
     (smesh s)\<lparr>NEList :=
        map (\<lambda>i. if i < length (NNList (smesh s)) \<and> NEList (smesh s) ! i \<noteq> []
                  then fold set_insert (swNEList s ! i) []
                  else NEList (smesh s) ! i)
          [0..<length (NEList (smesh s))]\<rparr>"

text \<open>
  The 2D branch with the loop cut after \<open>k\<close> rounds; when the result has no mark
  left, it is the result of the source's loop.
\<close>

definition swap2d :: "'surf collab \<Rightarrow> nat \<Rightarrow> mesh \<Rightarrow> (swap2d \<times> mesh) option" where
  "swap2d c k m =
     map_option (\<lambda>s. (s, swap2d_finish s)) (swap2d_rounds c k (swap2d_init c m))"

section \<open>Swapping in 3D\<close>










text \<open>
  Scoring one option: the qualities of its tetrahedra and their minimum, computed
  as in the source from the first one on.
\<close>

definition option_qualities :: "'surf collab \<Rightarrow> mesh \<Rightarrow> nat \<Rightarrow> int list \<Rightarrow> real list" where
  "option_qualities c m nelements ne =
     map (\<lambda>j. lipnikov c m [ne ! (j * 4), ne ! (j * 4 + 1), ne ! (j * 4 + 2), ne ! (j * 4 + 3)])
       [0..<nelements]"

















definition swap3d_init :: "'surf collab \<Rightarrow> mesh \<Rightarrow> swap2d" where
  "swap3d_init c m =
     \<lparr>smesh = m, quality = cache_quality c 4 m, marked_edges = [], originalVertexDegree = [],
      swNEList = [], n_marked_edges = 0\<rparr>"


section \<open>Properties of the 2D swap\<close>

text \<open>
  A quality measure used to run the model: four times the signed area over the sum
  of the squared edge lengths. Two meshes of four vertices and two triangles: the
  diamond, whose long diagonal \<open>(0,1)\<close> is an edge, in the state set up before the
  loop; and the kite, the same shape with the diagonal between the vertices \<open>2\<close> and
  \<open>3\<close>, in a state where only that edge is marked.
\<close>

definition area_over_edges :: "mesh \<Rightarrow> int list \<Rightarrow> real" where
  "area_over_edges m n =
     (let x0 = map real_of (get_coords 2 m (n ! 0)); x1 = map real_of (get_coords 2 m (n ! 1));
          x2 = map real_of (get_coords 2 m (n ! 2));
          a = ((x1 ! 0 - x0 ! 0) * (x2 ! 1 - x0 ! 1) - (x2 ! 0 - x0 ! 0) * (x1 ! 1 - x0 ! 1)) / 2;
          l = (x1 ! 0 - x0 ! 0)\<^sup>2 + (x1 ! 1 - x0 ! 1)\<^sup>2 + (x2 ! 0 - x1 ! 0)\<^sup>2
                + (x2 ! 1 - x1 ! 1)\<^sup>2 + (x0 ! 0 - x2 ! 0)\<^sup>2 + (x0 ! 1 - x2 ! 1)\<^sup>2
      in 4 * a / l)"

definition diamond_mesh :: mesh where
  "diamond_mesh =
     \<lparr>NNodes = 4, NElements = 2,
      NNList = [[1, 2, 3], [0, 2, 3], [0, 1], [0, 1]],
      NEList = [[0, 1], [0, 1], [0], [1]],
      ENList = [2, 0, 1, 3, 1, 0],
      coords = map Num [-2, 0, 2, 0, 0, 1, 0, -1],
      metric = map Num [1, 0, 1, 1, 0, 1, 1, 0, 1, 1, 0, 1],
      lnn2gnn = [0, 1, 2, 3],
      node_owner = [0, 0, 0, 0],
      recv_halo = []\<rparr>"

definition diamond_collab :: "unit collab" where
  "diamond_collab = strip_collab\<lparr>lipnikov := area_over_edges\<rparr>"

definition diamond_halo_collab :: "unit collab" where
  "diamond_halo_collab = diamond_collab\<lparr>is_halo_node := (\<lambda>m v. v = 2)\<rparr>"

definition diamond_swap :: swap2d where
  "diamond_swap =
     \<lparr>smesh = diamond_mesh\<lparr>NNList :=
         [[1, 2, 3, -1, -1, -1, -1, -1, -1], [0, 2, 3, -1, -1, -1, -1, -1, -1],
          [0, 1, -1, -1, -1, -1], [0, 1, -1, -1, -1, -1]]\<rparr>,
      quality = [4 / 13, 4 / 13],
      marked_edges = [[1, 1, 1], [0, 1, 1], [0, 0], [0, 0]],
      originalVertexDegree = [3, 3, 2, 2],
      swNEList = [[0, 1, -1, -1, -1, -1], [0, 1, -1, -1, -1, -1], [0, -1, -1, -1],
                  [1, -1, -1, -1]],
      n_marked_edges = 5\<rparr>"

definition diamond_flipped :: swap2d where
  "diamond_flipped =
     diamond_swap\<lparr>smesh := diamond_mesh\<lparr>NNList :=
         [[-1, 2, 3, -1, -1, -1, -1, -1, -1], [-1, 2, 3, -1, -1, -1, -1, -1, -1],
          [0, 1, 3, -1, -1, -1], [0, 1, 2, -1, -1, -1]],
         ENList := [2, 3, 1, 2, 0, 3]\<rparr>,
      quality := [4 / 7, 4 / 7],
      marked_edges := [[0, 1, 1], [0, 1, 1], [0, 0], [0, 0]],
      swNEList := [[-1, 1, -1, -1, -1, -1], [0, -1, -1, -1, -1, -1], [0, -1, 1, -1],
                   [1, -1, 0, -1]]\<rparr>"

definition diamond_locals :: flip_locals where
  "diamond_locals = \<lparr>opposite = 1, eid0 = 0, eid1 = 1, elem_n = [2, 0, 1],
     elem_m = [3, 1, 0], n_off = 0, m_off = 0\<rparr>"

text \<open>An edge \<open>(a,b)\<close> carries a mark: the mark is kept in the row of the lesser endpoint.\<close>

definition edge_marked :: "swap2d \<Rightarrow> int \<Rightarrow> int \<Rightarrow> bool" where
  "edge_marked s a b \<longleftrightarrow>
     originalNeighborIndex s (min a b) (max a b) < int (originalVertexDegree s ! nat (min a b))
     \<and> marked_edges s ! nat (min a b) ! nat (originalNeighborIndex s (min a b) (max a b)) = 1"

definition kite_swap :: swap2d where
  "kite_swap =
     \<lparr>smesh = diamond_mesh\<lparr>NNList :=
         [[2, 3, -1, -1, -1, -1], [2, 3, -1, -1, -1, -1],
          [0, 1, 3, -1, -1, -1, -1, -1, -1], [0, 1, 2, -1, -1, -1, -1, -1, -1]],
         NEList := [[0], [1], [0, 1], [0, 1]],
         ENList := [0, 2, 3, 1, 3, 2],
         coords := map Num [0, 1, 0, -1, -2, 0, 2, 0]\<rparr>,
      quality = [4 / 13, 4 / 13],
      marked_edges = [[0, 0], [0, 0], [0, 0, 1], [0, 0, 0]],
      originalVertexDegree = [2, 2, 3, 3],
      swNEList = [[0, -1, -1, -1], [1, -1, -1, -1], [0, 1, -1, -1, -1, -1],
                  [0, 1, -1, -1, -1, -1]],
      n_marked_edges = 1\<rparr>"

definition kite_locals :: flip_locals where
  "kite_locals = \<lparr>opposite = 3, eid0 = 0, eid1 = 1, elem_n = [0, 2, 3],
     elem_m = [1, 3, 2], n_off = 0, m_off = 0\<rparr>"

definition kite_flipped :: swap2d where
  "kite_flipped =
     kite_swap\<lparr>smesh := (smesh kite_swap)\<lparr>NNList :=
         [[2, 3, 1, -1, -1, -1], [2, 3, 0, -1, -1, -1],
          [0, 1, -1, -1, -1, -1, -1, -1, -1], [0, 1, -1, -1, -1, -1, -1, -1, -1]],
         ENList := [0, 1, 3, 0, 2, 1]\<rparr>,
      quality := [4 / 7, 4 / 7],
      marked_edges := [[1, 1], [1, 1], [0, 0, 0], [0, 0, 0]],
      swNEList := [[0, -1, 1, -1], [1, -1, 0, -1], [-1, 1, -1, -1, -1, -1],
                   [0, -1, -1, -1, -1, -1]]\<rparr>"

definition diamond_swept :: swap2d where
  "diamond_swept =
     \<lparr>smesh = diamond_mesh\<lparr>NNList := [[3, 2], [3, 2], [0, 1, 3], [0, 1, 2]],
         ENList := [2, 3, 1, 2, 0, 3]\<rparr>,
      quality = [4 / 7, 4 / 7],
      marked_edges = [[0, 0], [0, 0], [0, 0, 0], [0, 0, 0]],
      originalVertexDegree = [2, 2, 3, 3],
      swNEList = [[1], [0], [0, 1], [1, 0]],
      n_marked_edges = 0\<rparr>"

subsection \<open>Lateral edges\<close>

lemma diamond_init: "swap2d_init diamond_collab diamond_mesh = diamond_swap"
  by code_simp




lemma find_flip_Inl:
  "find_flip c s i it = Inl out \<Longrightarrow>
     out = NotMarked \<or> out = HaloOpposite \<or> out = NotInterior \<or> out = Stale"
  by (auto simp: find_flip_def Let_def split: if_splits option.splits prod.splits)

lemma find_flip_Inr:
  "find_flip c s i it = Inr l \<Longrightarrow>
     marked_edges s ! i ! it = 1 \<and> opposite l = NNList (smesh s) ! i ! it
     \<and> \<not> is_halo_node c (smesh s) (opposite l)
     \<and> neigh_elements_of s (int i) (opposite l) = [eid0 l, eid1 l]"
  by (auto simp: find_flip_def Let_def length_Suc_conv numeral_2_eq_2
      split: if_splits option.splits prod.splits)

lemma process_edge_Flipped:
  assumes "process_edge c s i it = (Flipped, s')"
  shows "\<exists>l d s''. find_flip c s i it = Inr l \<and> lateral_decision s (int i) l = Some d
     \<and> min (lipnikov c (smesh s) (n_swap l)) (lipnikov c (smesh s) (m_swap l))
          > min (quality s ! nat (eid0 l)) (quality s ! nat (eid1 l))
     \<and> commit_flip s i it l d (lipnikov c (smesh s) (n_swap l))
          (lipnikov c (smesh s) (m_swap l)) = Some s''
     \<and> s' = clear_mark s'' i it"
proof (cases "find_flip c s i it")
  case (Inl out)
  with assms find_flip_Inl [OF Inl] show ?thesis
    by (auto simp: process_edge_def)
next
  case (Inr l)
  with assms show ?thesis
    by (auto simp: process_edge_def Let_def split: option.splits if_splits)
qed

lemma marked_block_unmarked:
  assumes "marked_block s i opp lat = Some b" "lat < i"
  shows "\<not> edge_marked s lat i \<and> \<not> edge_marked s opp lat"
proof -
  have m: "min lat i = lat" "max lat i = i" using assms(2) by simp_all
  have o: "min opp lat = (if opp < lat then opp else lat)"
    "max opp lat = (if opp < lat then lat else opp)"
    by (simp_all add: min_def max_def)
  from assms show ?thesis
    unfolding edge_marked_def m o
    by (auto simp: marked_block_def Let_def split: if_splits)
qed

lemma lateral_decision_blocks:
  "lateral_decision s i l = Some d \<Longrightarrow>
     (\<exists>bn. marked_block s i (opposite l) (lateral_n l) = Some bn)
     \<and> (\<exists>bm. marked_block s i (opposite l) (lateral_m l) = Some bm)"
  by (auto simp: lateral_decision_def split: option.splits)

lemma kite_process_edge:
  "process_edge diamond_collab kite_swap 2 2 = (Flipped, kite_flipped)"
  by code_simp

text \<open>
  Claim C8, as amended. When the loop body commits the flip of the marked edge
  \<open>(i, opposite)\<close>, then for each of the two lateral vertices that is less than \<open>i\<close>,
  neither its edge to \<open>i\<close> nor its edge to \<open>opposite\<close> is marked at the time of the
  decision. For a lateral vertex greater than \<open>i\<close> the source tests no mark: the
  first decision blocks are entered under \<open>i > lateral_n\<close> and \<open>i > lateral_m\<close>.
\<close>

theorem flip_checks_lower_laterals:
  assumes "process_edge c s i it = (Flipped, s')"
  shows "\<exists>l. find_flip c s i it = Inr l
     \<and> (lateral_n l < int i \<longrightarrow>
          \<not> edge_marked s (lateral_n l) (int i) \<and> \<not> edge_marked s (opposite l) (lateral_n l))
     \<and> (lateral_m l < int i \<longrightarrow>
          \<not> edge_marked s (lateral_m l) (int i) \<and> \<not> edge_marked s (opposite l) (lateral_m l))"
proof -
  from process_edge_Flipped [OF assms] obtain l d where
    f: "find_flip c s i it = Inr l" and d: "lateral_decision s (int i) l = Some d"
    by blast
  from lateral_decision_blocks [OF d] obtain bn bm where
    "marked_block s (int i) (opposite l) (lateral_n l) = Some bn"
    "marked_block s (int i) (opposite l) (lateral_m l) = Some bm"
    by blast
  with f show ?thesis
    by (auto dest: marked_block_unmarked)
qed

theorem flip_checks_lower_laterals_witness:
  "process_edge diamond_collab kite_swap 2 2 = (Flipped, kite_flipped)
   \<and> find_flip diamond_collab kite_swap 2 2 = Inr kite_locals
   \<and> lateral_n kite_locals < int 2 \<and> lateral_m kite_locals < int 2
   \<and> \<not> edge_marked kite_swap (lateral_n kite_locals) (int 2)
   \<and> \<not> edge_marked kite_swap (opposite kite_locals) (lateral_n kite_locals)
   \<and> \<not> edge_marked kite_swap (lateral_m kite_locals) (int 2)
   \<and> \<not> edge_marked kite_swap (opposite kite_locals) (lateral_m kite_locals)"
proof -
  have f: "find_flip diamond_collab kite_swap 2 2 = Inr kite_locals"
    by code_simp
  have l: "lateral_n kite_locals < int 2" "lateral_m kite_locals < int 2"
    by code_simp+
  from flip_checks_lower_laterals [OF kite_process_edge] f l
  show ?thesis by (simp add: kite_process_edge)
qed

text \<open>
  On the diamond, where every edge is marked at the start, the flip of \<open>(0,1)\<close> is
  committed while the four lateral edges \<open>(0,2)\<close>, \<open>(0,3)\<close>, \<open>(1,2)\<close>, \<open>(1,3)\<close> carry
  their marks.
\<close>

theorem flip_with_marked_laterals_counterexample:
  "process_edge diamond_collab diamond_swap 0 0 = (Flipped, diamond_flipped)
   \<and> find_flip diamond_collab diamond_swap 0 0 = Inr diamond_locals
   \<and> lateral_n diamond_locals = 2 \<and> lateral_m diamond_locals = 3
   \<and> edge_marked diamond_swap 0 2 \<and> edge_marked diamond_swap 0 3
   \<and> edge_marked diamond_swap 1 2 \<and> edge_marked diamond_swap 1 3"
  by code_simp


subsection \<open>Halo vertices\<close>

text \<open>
  Claim C5, as amended. When the loop reaches a halo vertex it clears the marks of
  its row and does nothing else; when it reaches a marked edge whose other endpoint
  is a halo vertex it clears that mark and does nothing else; and a flip is
  committed only for a marked edge whose other endpoint is not a halo vertex (the
  loop body is not run for a halo vertex \<open>i\<close>). Nothing is said of an element for
  which a halo vertex is the apex opposite a flipped edge.
\<close>

theorem swap_halo_edges_not_flipped:
  "(is_halo_node c (smesh s) (int i) \<longrightarrow>
      process_vertex c i s
        = Some (s\<lparr>marked_edges := (marked_edges s)[i := map (\<lambda>x. 0) (marked_edges s ! i)]\<rparr>))
   \<and> (marked_edges s ! i ! it = 1 \<and> is_halo_node c (smesh s) (NNList (smesh s) ! i ! it) \<longrightarrow>
      process_edge c s i it = (HaloOpposite, clear_mark s i it))
   \<and> (fst (process_edge c s i it) = Flipped \<longrightarrow>
      marked_edges s ! i ! it = 1 \<and> \<not> is_halo_node c (smesh s) (NNList (smesh s) ! i ! it))"
proof -
  have a: "is_halo_node c (smesh s) (int i) \<Longrightarrow>
      process_vertex c i s
        = Some (s\<lparr>marked_edges := (marked_edges s)[i := map (\<lambda>x. 0) (marked_edges s ! i)]\<rparr>)"
    by (simp add: process_vertex_def)
  have b: "marked_edges s ! i ! it = 1 \<and> is_halo_node c (smesh s) (NNList (smesh s) ! i ! it)
      \<Longrightarrow> process_edge c s i it = (HaloOpposite, clear_mark s i it)"
    by (simp add: process_edge_def find_flip_def Let_def)
  have c: "fst (process_edge c s i it) = Flipped \<Longrightarrow>
      marked_edges s ! i ! it = 1 \<and> \<not> is_halo_node c (smesh s) (NNList (smesh s) ! i ! it)"
  proof -
    assume "fst (process_edge c s i it) = Flipped"
    then obtain s' where "process_edge c s i it = (Flipped, s')"
      by (cases "process_edge c s i it") simp
    from process_edge_Flipped [OF this] obtain l where "find_flip c s i it = Inr l" by blast
    from find_flip_Inr [OF this] show ?thesis by auto
  qed
  from a b c show ?thesis by blast
qed

theorem swap_halo_edges_not_flipped_witness:
  "is_halo_node diamond_halo_collab (smesh kite_swap) (int 2)
   \<and> process_vertex diamond_halo_collab 2 kite_swap
       = Some (kite_swap\<lparr>marked_edges := (marked_edges kite_swap)
                 [2 := map (\<lambda>x. 0) (marked_edges kite_swap ! 2)]\<rparr>)
   \<and> marked_edges kite_swap ! 2 = [0, 0, 1]
   \<and> marked_edges diamond_swap ! 0 ! 1 = 1
   \<and> is_halo_node diamond_halo_collab (smesh diamond_swap) (NNList (smesh diamond_swap) ! 0 ! 1)
   \<and> process_edge diamond_halo_collab diamond_swap 0 1
       = (HaloOpposite, clear_mark diamond_swap 0 1)
   \<and> fst (process_edge diamond_halo_collab diamond_swap 0 0) = Flipped
   \<and> \<not> is_halo_node diamond_halo_collab (smesh diamond_swap)
         (NNList (smesh diamond_swap) ! 0 ! 0)"
proof -
  have h1: "is_halo_node diamond_halo_collab (smesh kite_swap) (int 2)"
    by code_simp
  have h2: "marked_edges diamond_swap ! 0 ! 1 = 1 \<and>
     is_halo_node diamond_halo_collab (smesh diamond_swap) (NNList (smesh diamond_swap) ! 0 ! 1)"
    by code_simp
  have h3: "fst (process_edge diamond_halo_collab diamond_swap 0 0) = Flipped"
    by code_simp
  have h4: "marked_edges kite_swap ! 2 = [0, 0, 1]"
    by code_simp
  from swap_halo_edges_not_flipped [of diamond_halo_collab kite_swap 2 0] h1
  have p1: "process_vertex diamond_halo_collab 2 kite_swap
       = Some (kite_swap\<lparr>marked_edges := (marked_edges kite_swap)
                 [2 := map (\<lambda>x. 0) (marked_edges kite_swap ! 2)]\<rparr>)"
    by blast
  from swap_halo_edges_not_flipped [of diamond_halo_collab diamond_swap 0 1] h2
  have p2: "process_edge diamond_halo_collab diamond_swap 0 1
       = (HaloOpposite, clear_mark diamond_swap 0 1)"
    by blast
  from swap_halo_edges_not_flipped [of diamond_halo_collab diamond_swap 0 0] h3
  have p3: "\<not> is_halo_node diamond_halo_collab (smesh diamond_swap)
         (NNList (smesh diamond_swap) ! 0 ! 0)"
    by blast
  from h1 h2 h3 h4 p1 p2 p3 show ?thesis by blast
qed

text \<open>
  On the diamond with vertex \<open>2\<close> in the halo, the sweep ends after one round with no
  mark left; the element \<open>0\<close>, which contains vertex \<open>2\<close>, and both adjacency lists of
  vertex \<open>2\<close> have changed.
\<close>

theorem swap_modifies_halo_element_counterexample:
  "is_halo_node diamond_halo_collab diamond_mesh 2
   \<and> get_element 3 diamond_mesh 0 = [2, 0, 1]
   \<and> swap2d diamond_halo_collab 5 diamond_mesh = Some (diamond_swept, swap2d_finish diamond_swept)
   \<and> n_marked_edges diamond_swept = 0
   \<and> get_element 3 (swap2d_finish diamond_swept) 0 = [2, 3, 1]
   \<and> NNList diamond_mesh ! 2 = [0, 1]
   \<and> NNList (swap2d_finish diamond_swept) ! 2 = [0, 1, 3]
   \<and> NEList diamond_mesh ! 2 = [0]
   \<and> NEList (swap2d_finish diamond_swept) ! 2 = [0, 1]"
  by code_simp

subsection \<open>The cached quality along the 2D sweep\<close>

text \<open>
  A bound \<open>g\<close> holds for the elements in use, those named in the node-element lists
  kept by the 2D branch, when each of them has a cached quality of at least \<open>g\<close>.
\<close>

definition live_quality_above :: "real \<Rightarrow> swap2d \<Rightarrow> bool" where
  "live_quality_above g s \<longleftrightarrow>
     length (swNEList s) = length (NNList (smesh s))
     \<and> (\<forall>l \<in> set (swNEList s). \<forall>e \<in> set l.
           e \<noteq> -1 \<longrightarrow> nat e < length (quality s) \<and> g \<le> quality s ! nat e)"

lemma find_pos_Some: "find_pos x xs = Some p \<Longrightarrow> p < length xs \<and> xs ! p = x"
  by (induction xs arbitrary: p) (auto split: if_splits)

lemma set_update2_subset: "set (xs[i := x]) \<subseteq> insert x (set xs)"
  by (rule set_update_subset_insert)























lemma set_memcpy_at: "set (memcpy_at off src xs) \<subseteq> set src \<union> set xs"
  by (auto simp: memcpy_at_def dest: in_set_takeD in_set_dropD)

lemma swap2d_init_live:
  assumes "length (NEList m) = length (NNList m)"
    and "\<forall>l \<in> set (NEList m). \<forall>e \<in> set l.
           e \<noteq> -1 \<longrightarrow> nat e < NElements m \<and> g \<le> cache_quality c 3 m ! nat e"
  shows "live_quality_above g (swap2d_init c m)"
proof -
  have q: "length (cache_quality c 3 m) = NElements m" by (simp add: cache_quality_def)
  have "e \<noteq> -1 \<longrightarrow> nat e < NElements m \<and> g \<le> cache_quality c 3 m ! nat e"
    if l: "l \<in> set (swNEList (swap2d_init c m))" and e: "e \<in> set l" for l e
  proof -
    from l obtain i where i: "i < length (NEList m)"
      and "l = (if NNList m ! i = [] then []
                else memcpy_at 0 (NEList m ! i) (replicate (2 * length (NNList m ! i)) (-1)))"
      by (auto simp: swap2d_init_def Let_def)
    with e set_memcpy_at [of 0 "NEList m ! i" "replicate (2 * length (NNList m ! i)) (-1)"]
    have "e \<in> set (NEList m ! i) \<or> e = -1" by (auto split: if_splits)
    moreover from i have "NEList m ! i \<in> set (NEList m)" by simp
    ultimately show ?thesis using assms(2) by blast
  qed
  with assms(1) q show ?thesis
    by (simp add: live_quality_above_def) (simp add: swap2d_init_def Let_def)
qed




section \<open>Properties of the 3D swap\<close>

text \<open>
  The state of the 3D branch is well-formed for the first \<open>N\<close> elements, with the
  bound \<open>g\<close>, when the element table and the quality cache have four entries and one
  entry per element, the vertices of the first \<open>N\<close> elements have node-element lists,
  the node-element lists name elements of the cache, and every element that is not
  erased has a cached quality of at least \<open>g\<close>. The table of face neighbours is in
  range when its keys and its entries other than \<open>-1\<close> are among the first \<open>N\<close>
  elements.
\<close>

definition alive_quality_above :: "nat \<Rightarrow> real \<Rightarrow> swap2d \<Rightarrow> bool" where
  "alive_quality_above N g s \<longleftrightarrow>
     length (ENList (smesh s)) = 4 * length (quality s) \<and> N \<le> length (quality s)
     \<and> (\<forall>p < 4 * N. nat (ENList (smesh s) ! p) < length (NEList (smesh s)))
     \<and> (\<forall>l \<in> set (NEList (smesh s)). \<forall>e \<in> set l. 0 \<le> e \<and> nat e < length (quality s))
     \<and> (\<forall>e < length (quality s). 0 \<le> ENList (smesh s) ! (4 * e) \<longrightarrow> g \<le> quality s ! e)"












subsection \<open>Templates, inversion and scoring\<close>








lemma take4_drop:
  "j * 4 + 3 < length xs \<Longrightarrow>
     take 4 (drop (j * 4) xs) = [xs ! (j * 4), xs ! (j * 4 + 1), xs ! (j * 4 + 2), xs ! (j * 4 + 3)]"
  by (auto simp: list_eq_iff_nth_eq nth_Cons' numeral_eq_Suc less_Suc_eq le_Suc_eq)

lemma option_qualities_tets:
  "4 * n \<le> length ne \<Longrightarrow>
     option_qualities c m n ne = map (\<lambda>j. lipnikov c m (take 4 (drop (j * 4) ne))) [0..<n]"
  by (simp add: option_qualities_def take4_drop)










subsection \<open>The two passes keep a bound on the cached quality\<close>

lemma get_element_nth:
  "4 * nat e + k < length (ENList m) \<Longrightarrow> k < 4 \<Longrightarrow>
     get_element 4 m e ! k = ENList m ! (4 * nat e + k)"
  by (simp add: get_element_def)


























lemma swap3d_init_alive:
  assumes "length (ENList m) = 4 * NElements m"
    and "\<forall>p < 4 * NElements m. nat (ENList m ! p) < length (NEList m)"
    and "\<forall>l \<in> set (NEList m). \<forall>e \<in> set l. 0 \<le> e \<and> nat e < NElements m"
    and "\<forall>e < NElements m. 0 \<le> ENList m ! (4 * e) \<longrightarrow>
           g \<le> lipnikov c m (get_element 4 m (int e))"
  shows "alive_quality_above (NElements m) g (swap3d_init c m)"
proof -
  have "g \<le> cache_quality c 4 m ! e" if e: "e < NElements m" and a: "0 \<le> ENList m ! (4 * e)"
    for e
  proof -
    from e assms(1) have "4 * nat (int e) + 0 < length (ENList m)" by simp
    from get_element_nth [OF this] have "get_element 4 m (int e) ! 0 = ENList m ! (4 * e)"
      by simp
    with e a assms(4) show ?thesis by (simp add: cache_quality_def Let_def)
  qed
  with assms(1,2,3) show ?thesis
    by (simp add: alive_quality_above_def swap3d_init_def) (simp add: cache_quality_def)
qed

subsection \<open>The committed edge-to-face swap\<close>









section \<open>Quality of the replacement elements\<close>








end
